theory Spec2Isabelle
  imports Main "HOL-Library.Sublist" "HOL-Library.AList" "HOL-Library.Char_ord"
    "HOL-Library.List_Lexorder"
begin

section \<open>Strings\<close>

text \<open>
  A source string is a \<^typ>\<open>string\<close>: one \<^typ>\<open>char\<close> stands for one code unit of
  the JavaScript string (the model covers the code units below 256). The functions of
  this section are the built-in string and array operations the source calls.
\<close>

text \<open>
  What a call can throw: a \<^verbatim>\<open>TypeError\<close> (a call of something that is not a function,
  a read of a property of \<^verbatim>\<open>undefined\<close> or \<^verbatim>\<open>null\<close>), the \<^verbatim>\<open>SyntaxError\<close> of the
  regular expression constructor, and the error of the YAML parser.
\<close>

datatype thrown = TypeError | SyntaxError | YamlParseError

text \<open>\<^verbatim>\<open>s.split("\n")\<close>: the pieces between the separators; never the empty array.\<close>

fun split_on :: "char \<Rightarrow> string \<Rightarrow> string list" where
  "split_on c [] = [[]]"
| "split_on c (x # xs) =
     (if x = c then [] # split_on c xs
      else (case split_on c xs of [] \<Rightarrow> [[x]] | l # ls \<Rightarrow> (x # l) # ls))"

text \<open>\<^verbatim>\<open>a.join("\n")\<close>: the empty array gives the empty string.\<close>

fun join_with :: "string \<Rightarrow> string list \<Rightarrow> string" where
  "join_with sep [] = []"
| "join_with sep [l] = l"
| "join_with sep (l # m # ls) = l @ sep @ join_with sep (m # ls)"

definition NL :: char where
  "NL = CHR 0x0A"

definition lines_of :: "string \<Rightarrow> string list" where
  "lines_of contents = split_on NL contents"

definition unlines :: "string list \<Rightarrow> string" where
  "unlines ls = join_with [NL] ls"

text \<open>\<^verbatim>\<open>s.includes(sub)\<close>: \<open>sub\<close> occurs in \<open>s\<close> as a contiguous substring.\<close>

fun str_includes :: "string \<Rightarrow> string \<Rightarrow> bool" where
  "str_includes [] sub = (sub = [])"
| "str_includes (x # xs) sub = (prefix sub (x # xs) \<or> str_includes xs sub)"

text \<open>
  \<^verbatim>\<open>s.replace(pat, rep)\<close> with a string pattern: only the first occurrence is replaced.
  (The source only passes the replacement \<^verbatim>\<open>""\<close> or plain names.)
\<close>

fun replace_first :: "string \<Rightarrow> string \<Rightarrow> string \<Rightarrow> string" where
  "replace_first pat rep [] = (if pat = [] then rep else [])"
| "replace_first pat rep (x # xs) =
     (if prefix pat (x # xs) then rep @ drop (length pat) (x # xs)
      else x # replace_first pat rep xs)"

text \<open>\<^verbatim>\<open>s.trim()\<close>: white space and line terminators are stripped from both ends.\<close>

definition is_space :: "char \<Rightarrow> bool" where
  "is_space c = (c \<in> set [CHR 0x09, CHR 0x0A, CHR 0x0B, CHR 0x0C, CHR 0x0D, CHR 0x20, CHR 0xA0])"

definition trim :: "string \<Rightarrow> string" where
  "trim s = rev (dropWhile is_space (rev (dropWhile is_space s)))"

text \<open>\<^verbatim>\<open>a.findIndex(p)\<close>: the first index whose element satisfies \<open>p\<close>, or \<open>-1\<close>.\<close>

fun findIndex :: "('a \<Rightarrow> bool) \<Rightarrow> 'a list \<Rightarrow> int" where
  "findIndex p [] = -1"
| "findIndex p (x # xs) =
     (if p x then 0 else (let i = findIndex p xs in if i = -1 then -1 else i + 1))"

text \<open>
  \<^verbatim>\<open>a.splice(start, deleteCount)\<close> for \<open>0 \<le> start\<close>: a negative count deletes nothing.
\<close>

definition splice :: "nat \<Rightarrow> int \<Rightarrow> 'a list \<Rightarrow> 'a list" where
  "splice start deleteCount xs = take start xs @ drop (start + nat deleteCount) xs"

section \<open>Marker comments\<close>

datatype MarkupComments =
    RemoveCurrentLine
  | RemoveNextLine
  | RemoveBlockStart
  | RemoveBlockEnd
  | RemoveFile
  | ReplaceNextLine

fun kind_text :: "MarkupComments \<Rightarrow> string" where
  "kind_text RemoveCurrentLine = ''remove-current-line''"
| "kind_text RemoveNextLine = ''remove-next-line''"
| "kind_text RemoveBlockStart = ''remove-block-start''"
| "kind_text RemoveBlockEnd = ''remove-block-end''"
| "kind_text RemoveFile = ''remove-file''"
| "kind_text ReplaceNextLine = ''replace-next-line''"

definition markupComment :: "string \<Rightarrow> MarkupComments \<Rightarrow> string" where
  "markupComment pfx commentType = pfx @ '' '' @ kind_text commentType"

section \<open>Line and block transforms\<close>

definition removeCurrentLine :: "string \<Rightarrow> string \<Rightarrow> string" where
  "removeCurrentLine contents comment =
     unlines (filter (\<lambda>line. \<not> str_includes line comment) (lines_of contents))"

text \<open>
  \<open>removeNextLine\<close> filters by index: \<^verbatim>\<open>lines[index - 1]\<close> is \<^verbatim>\<open>undefined\<close> at index
  0, where only the current line decides.
\<close>

definition removeNextLine_keep :: "string list \<Rightarrow> string \<Rightarrow> nat \<Rightarrow> bool" where
  "removeNextLine_keep lines comment index =
     (let line = lines ! index;
          preserveCurrent = \<not> str_includes line comment;
          preservePrevious = (index \<noteq> 0 \<and> \<not> str_includes (lines ! (index - 1)) comment)
      in if index = 0 then preserveCurrent else preserveCurrent \<and> preservePrevious)"

definition removeNextLine :: "string \<Rightarrow> string \<Rightarrow> string" where
  "removeNextLine contents comment =
     (let lines = lines_of contents
      in unlines (map (\<lambda>i. lines ! i)
           (filter (removeNextLine_keep lines comment) [0..<length lines])))"

text \<open>
  \<open>replaceNextLine\<close>: the text taken from a marker line is the line without its first
  \<^verbatim>\<open>//\<close> and without the first occurrence of the marker, trimmed.
\<close>

definition replacement_text :: "string \<Rightarrow> string \<Rightarrow> string" where
  "replacement_text prevLine comment =
     trim (replace_first comment [] (replace_first ''//'' [] prevLine))"

definition replaceNextLine_map :: "string list \<Rightarrow> string \<Rightarrow> nat \<Rightarrow> string" where
  "replaceNextLine_map lines comment index =
     (if index \<noteq> 0 \<and> str_includes (lines ! (index - 1)) comment
      then replacement_text (lines ! (index - 1)) comment
      else lines ! index)"

definition replaceNextLine :: "string \<Rightarrow> string \<Rightarrow> string" where
  "replaceNextLine contents comment =
     (let lines = lines_of contents;
          mapped = map (replaceNextLine_map lines comment) [0..<length lines]
      in unlines (filter (\<lambda>line. \<not> str_includes line comment) mapped))"

text \<open>
  \<open>removeBlocks\<close> calls itself while a start and an end marker are both found. Nothing
  in the source makes the text shrink between two calls, so the recursion is a partial
  function: \<open>None\<close> is a call that never returns.
\<close>

partial_function (option) removeBlocks :: "string \<Rightarrow> string \<Rightarrow> string \<Rightarrow> string option" where
  "removeBlocks contents start endc =
     (let lines = lines_of contents;
          blockStartIndex = findIndex (\<lambda>line. str_includes line start) lines;
          blockEndIndex = findIndex (\<lambda>line. str_includes line endc) lines;
          blockExists = (blockStartIndex \<noteq> -1 \<and> blockEndIndex \<noteq> -1);
          lines' = (if blockExists
                    then splice (nat blockStartIndex) (blockEndIndex - blockStartIndex + 1) lines
                    else lines);
          updateContents = unlines lines';
          anotherBlockExists =
            (findIndex (\<lambda>line. str_includes line start) lines' \<noteq> -1 \<and>
             findIndex (\<lambda>line. str_includes line endc) lines' \<noteq> -1)
      in if anotherBlockExists then removeBlocks updateContents start endc
         else Some updateContents)"

definition updateFile :: "string \<Rightarrow> string \<Rightarrow> string option" where
  "updateFile contents markupPrefix =
     (case removeBlocks contents
             (markupComment markupPrefix RemoveBlockStart)
             (markupComment markupPrefix RemoveBlockEnd) of
        None \<Rightarrow> None
      | Some r1 \<Rightarrow>
          (let r2 = removeCurrentLine r1 (markupComment markupPrefix RemoveCurrentLine);
               r3 = removeNextLine r2 (markupComment markupPrefix RemoveNextLine);
               r4 = replaceNextLine r3 (markupComment markupPrefix ReplaceNextLine)
           in Some r4))"

section \<open>The marker detector\<close>

text \<open>
  The regular expressions of the source are built from characters, the dot, literal
  text, sequence, alternative, the optional item and the greedy star of one character
  class. \<open>rx_match r s k\<close> is a backtracking matcher in the order the engine tries:
  it matches \<open>r\<close> at the front of \<open>s\<close> and hands the rest to the continuation \<open>k\<close>,
  moving to the next choice when \<open>k\<close> fails.
\<close>

datatype cls = Lit char | AnyChar

datatype rx = Atom cls | Str string | Seq rx rx | Alt rx rx | Opt rx | Star cls

text \<open>The dot matches every code unit except a line terminator.\<close>

fun cls_match :: "cls \<Rightarrow> char \<Rightarrow> bool" where
  "cls_match (Lit c) x = (x = c)"
| "cls_match AnyChar x = (x \<noteq> CHR 0x0A \<and> x \<noteq> CHR 0x0D)"

fun star_match :: "cls \<Rightarrow> string \<Rightarrow> (string \<Rightarrow> string option) \<Rightarrow> string option" where
  "star_match c [] k = k []"
| "star_match c (x # xs) k =
     (if cls_match c x
      then (case star_match c xs k of Some e \<Rightarrow> Some e | None \<Rightarrow> k (x # xs))
      else k (x # xs))"

fun rx_match :: "rx \<Rightarrow> string \<Rightarrow> (string \<Rightarrow> string option) \<Rightarrow> string option" where
  "rx_match (Atom c) s k =
     (case s of [] \<Rightarrow> None | x # xs \<Rightarrow> if cls_match c x then k xs else None)"
| "rx_match (Str p) s k = (if prefix p s then k (drop (length p) s) else None)"
| "rx_match (Seq a b) s k = rx_match a s (\<lambda>s'. rx_match b s' k)"
| "rx_match (Alt a b) s k =
     (case rx_match a s k of Some e \<Rightarrow> Some e | None \<Rightarrow> rx_match b s k)"
| "rx_match (Opt a) s k =
     (case rx_match a s k of Some e \<Rightarrow> Some e | None \<Rightarrow> k s)"
| "rx_match (Star c) s k = star_match c s k"

text \<open>
  The leftmost match at or after index \<open>i\<close>: its start and its end. An index beyond the
  end of the string gives no match.
\<close>

function find_match :: "rx \<Rightarrow> string \<Rightarrow> nat \<Rightarrow> (nat \<times> nat) option" where
  "find_match r S i =
     (if length S < i then None
      else (case rx_match r (drop i S) Some of
              Some rest \<Rightarrow> Some (i, length S - length rest)
            | None \<Rightarrow> find_match r S (Suc i)))"
  by pat_completeness auto
termination
  by (relation "measure (\<lambda>(r, S, i). Suc (length S) - i)") auto

text \<open>
  A regular expression object carries its flags and the mutable \<^verbatim>\<open>lastIndex\<close>. With
  the global flag, \<^verbatim>\<open>test\<close> starts at \<^verbatim>\<open>lastIndex\<close> and leaves the end of the match
  there, or 0 when nothing matched.
\<close>

record RegExp =
  rx_source :: rx
  rx_global :: bool
  rx_multiline :: bool
  lastIndex :: nat

definition regexp_test :: "RegExp \<Rightarrow> string \<Rightarrow> bool \<times> RegExp" where
  "regexp_test R S =
     (case find_match (rx_source R) S (if rx_global R then lastIndex R else 0) of
        None \<Rightarrow> (False, if rx_global R then R\<lparr>lastIndex := 0\<rparr> else R)
      | Some (i, e) \<Rightarrow> (True, if rx_global R then R\<lparr>lastIndex := e\<rparr> else R))"

text \<open>
  \<^verbatim>\<open>S.replace(R, "")\<close>: with the global flag every match from index 0 on is deleted
  and \<^verbatim>\<open>lastIndex\<close> ends at 0; an empty match moves on by one code unit.
\<close>

function delete_matches :: "rx \<Rightarrow> string \<Rightarrow> string" where
  "delete_matches r [] = []"
| "delete_matches r (x # xs) =
     (case rx_match r (x # xs) Some of
        None \<Rightarrow> x # delete_matches r xs
      | Some rest \<Rightarrow>
          if length rest < length (x # xs) then delete_matches r rest
          else x # delete_matches r xs)"
  by pat_completeness auto
termination
  by (relation "measure (\<lambda>(r, S). length S)") auto

definition regexp_delete :: "RegExp \<Rightarrow> string \<Rightarrow> string \<times> RegExp" where
  "regexp_delete R S =
     (if rx_global R then (delete_matches (rx_source R) S, R\<lparr>lastIndex := 0\<rparr>)
      else (case find_match (rx_source R) S 0 of
              None \<Rightarrow> (S, R)
            | Some (i, e) \<Rightarrow> (take i S @ drop e S, R)))"

text \<open>
  \<open>markupRegex\<close> writes its pattern as a template literal. In a template literal the
  escapes \<^verbatim>\<open>\/\<close> and \<^verbatim>\<open>\s\<close> denote the characters \<^verbatim>\<open>/\<close> and \<^verbatim>\<open>s\<close>, so the text
  handed to \<^verbatim>\<open>new RegExp\<close> is \<open>markupPattern\<close>. For a prefix that holds no operator
  of the pattern language (\<open>plain_prefix\<close>) the prefix stands for itself, and
  \<open>markupRegex\<close> is that text parsed, with the flags \<^verbatim>\<open>gm\<close>.
\<close>

definition markupPattern :: "string \<Rightarrow> string" where
  "markupPattern pfx = ''(//|#)s*'' @ pfx @ ''.*|{?/.*'' @ pfx @ ''.*/}?''"

definition markupRegex :: "string \<Rightarrow> RegExp" where
  "markupRegex pfx =
     \<lparr> rx_source =
         Alt (Seq (Alt (Str ''//'') (Str ''#''))
               (Seq (Star (Lit CHR ''s'')) (Seq (Str pfx) (Star AnyChar))))
             (Seq (Opt (Atom (Lit CHR ''{'')))
               (Seq (Atom (Lit CHR ''/''))
                 (Seq (Star AnyChar)
                   (Seq (Str pfx)
                     (Seq (Star AnyChar)
                       (Seq (Atom (Lit CHR ''/'')) (Opt (Atom (Lit CHR ''}''))))))))),
       rx_global = True,
       rx_multiline = True,
       lastIndex = 0 \<rparr>"

text \<open>
  A prefix with an operator is read as pattern text: the constructor may accept it, with
  another meaning, or throw a \<^verbatim>\<open>SyntaxError\<close>. What the constructor makes of such a
  pattern is a parameter, \<open>engine\<close>: the parsed expression, or \<open>None\<close> when it throws.
\<close>

definition plain_prefix :: "string \<Rightarrow> bool" where
  "plain_prefix pfx = list_all (\<lambda>c. c \<notin> set (CHR 0x5C # ''^$.*+?()[]{}|'')) pfx"

definition new_markupRegex :: "(string \<Rightarrow> rx option) \<Rightarrow> string \<Rightarrow> RegExp option" where
  "new_markupRegex engine pfx =
     (if plain_prefix pfx then Some (markupRegex pfx)
      else (case engine (markupPattern pfx) of
              None \<Rightarrow> None
            | Some r \<Rightarrow>
                Some \<lparr>rx_source = r, rx_global = True, rx_multiline = True, lastIndex = 0\<rparr>))"

section \<open>The file system\<close>

text \<open>
  The file system the tools read and change is an association list from paths to
  nodes, a file with its content or a directory. A path is the text the source passes
  around, with \<^verbatim>\<open>/\<close> between its segments.
\<close>

datatype node = File string | Dir

type_synonym filesystem = "(string \<times> node) list"

text \<open>\<^verbatim>\<open>read\<close> gives \<^verbatim>\<open>undefined\<close> (here \<open>None\<close>) where there is no file.\<close>

definition fs_read :: "filesystem \<Rightarrow> string \<Rightarrow> string option" where
  "fs_read fs path = (case map_of fs path of Some (File c) \<Rightarrow> Some c | _ \<Rightarrow> None)"

definition fs_write :: "filesystem \<Rightarrow> string \<Rightarrow> string \<Rightarrow> filesystem" where
  "fs_write fs path contents = AList.update path (File contents) fs"

definition is_under :: "string \<Rightarrow> string \<Rightarrow> bool" where
  "is_under d q = (prefix (d @ ''/'') q \<and> length d + 1 < length q)"

definition is_child :: "string \<Rightarrow> string \<Rightarrow> bool" where
  "is_child d q = (is_under d q \<and> CHR ''/'' \<notin> set (drop (length d + 1) q))"

text \<open>\<^verbatim>\<open>remove\<close> deletes the node at the path and everything below it.\<close>

definition fs_remove :: "filesystem \<Rightarrow> string \<Rightarrow> filesystem" where
  "fs_remove fs path = filter (\<lambda>(q, n). q \<noteq> path \<and> \<not> is_under path q) fs"

text \<open>\<^verbatim>\<open>list\<close>: the names in a directory, \<^verbatim>\<open>undefined\<close> when the path is no directory.\<close>

definition fs_list :: "filesystem \<Rightarrow> string \<Rightarrow> string list option" where
  "fs_list fs path =
     (case map_of fs path of
        Some Dir \<Rightarrow> Some (map (\<lambda>(q, n). drop (length path + 1) q)
                          (filter (\<lambda>(q, n). is_child path q) fs))
      | _ \<Rightarrow> None)"

text \<open>
  \<^verbatim>\<open>cwd(targetDir).find({matching, recursive, files: false, directories: true})\<close>: the
  directories below \<open>targetDir\<close>, as paths relative to it, that the globs accept. The
  glob engine is a parameter: \<open>matching\<close> decides on a relative path.
\<close>

definition fs_find_dirs :: "(string \<Rightarrow> bool) \<Rightarrow> string \<Rightarrow> filesystem \<Rightarrow> string list" where
  "fs_find_dirs matching targetDir fs =
     filter matching
       (map (\<lambda>(q, n). drop (length targetDir + 1) q)
          (filter (\<lambda>(q, n). n = Dir \<and> is_under targetDir q) fs))"

text \<open>
  \<^verbatim>\<open>pathlib.join(targetDir, path)\<close> for a target directory written without a
  separator at its end and without \<^verbatim>\<open>.\<close> or \<^verbatim>\<open>..\<close> segments, where joining is putting
  the separator between the two.
\<close>

definition path_join :: "string \<Rightarrow> string \<Rightarrow> string" where
  "path_join d rel = d @ ''/'' @ rel"

section \<open>Removing empty directories\<close>

definition getEmptyDirPaths :: "(string \<Rightarrow> bool) \<Rightarrow> string \<Rightarrow> filesystem \<Rightarrow> string list" where
  "getEmptyDirPaths matching targetDir fs =
     filter (\<lambda>path. case fs_list fs path of None \<Rightarrow> True | Some names \<Rightarrow> length names = 0)
       (map (path_join targetDir) (fs_find_dirs matching targetDir fs))"

text \<open>One \<^verbatim>\<open>forEach\<close> round: every path is recorded, and removed unless \<open>dryRun\<close>.\<close>

fun remove_round :: "bool \<Rightarrow> string list \<Rightarrow> filesystem \<times> string list \<Rightarrow> filesystem \<times> string list" where
  "remove_round dryRun [] st = st"
| "remove_round dryRun (path # rest) (fs, removedDirs) =
     remove_round dryRun rest
       (if \<not> dryRun then fs_remove fs path else fs, removedDirs @ [path])"

text \<open>
  The \<^verbatim>\<open>while\<close> loop has no bound on its rounds; \<open>None\<close> is a loop that never leaves.
\<close>

partial_function (option) removeEmptyDirs_loop ::
  "(string \<Rightarrow> bool) \<Rightarrow> string \<Rightarrow> bool \<Rightarrow> filesystem \<times> string list \<Rightarrow> string list
     \<Rightarrow> (string list \<times> filesystem) option" where
  "removeEmptyDirs_loop matching targetDir dryRun st emptyDirPaths =
     (if length emptyDirPaths > 0
      then (let st' = remove_round dryRun emptyDirPaths st
            in removeEmptyDirs_loop matching targetDir dryRun st'
                 (getEmptyDirPaths matching targetDir (fst st')))
      else Some (snd st, fst st))"

definition removeEmptyDirs ::
  "(string \<Rightarrow> bool) \<Rightarrow> string \<Rightarrow> bool \<Rightarrow> filesystem \<Rightarrow> (string list \<times> filesystem) option" where
  "removeEmptyDirs matching targetDir dryRun fs =
     removeEmptyDirs_loop matching targetDir dryRun (fs, [])
       (getEmptyDirPaths matching targetDir fs)"

section \<open>Bulk passes over files\<close>

text \<open>
  Both passes read through the toolbox's \<^verbatim>\<open>patching\<close> object, and \<open>updateFiles\<close> writes
  through it. That object offers \<^verbatim>\<open>update\<close>, \<^verbatim>\<open>append\<close>, \<^verbatim>\<open>prepend\<close>, \<^verbatim>\<open>replace\<close>,
  \<^verbatim>\<open>patch\<close> and \<^verbatim>\<open>exists\<close>; the members \<^verbatim>\<open>read\<close> and \<^verbatim>\<open>writeAsync\<close> that the source
  calls are not among them. The two members are parameters of the model: a member the
  object does not have is \<open>None\<close>, and the call of it throws a \<^verbatim>\<open>TypeError\<close>.
  \<open>gluegun_patching\<close> is the object as the toolbox has it.
\<close>

record markup_patching =
  patching_read :: "(filesystem \<Rightarrow> string \<Rightarrow> string option) option"
  patching_writeAsync :: "(filesystem \<Rightarrow> string \<Rightarrow> string \<Rightarrow> filesystem) option"

definition gluegun_patching :: markup_patching where
  "gluegun_patching = \<lparr>patching_read = None, patching_writeAsync = None\<rparr>"

text \<open>
  \<open>deleteFiles\<close>: a file whose content holds the comment is reported, and removed
  unless \<open>dryRun\<close>, which is \<^verbatim>\<open>true\<close> when the caller leaves it out. The loop gives the
  state it reached and the error that ended it, if one did.
\<close>

fun deleteFiles_loop :: "markup_patching \<Rightarrow> string \<Rightarrow> bool \<Rightarrow> string list
    \<Rightarrow> filesystem \<times> string list \<Rightarrow> (filesystem \<times> string list) \<times> thrown option" where
  "deleteFiles_loop P comment dryRun [] st = (st, None)"
| "deleteFiles_loop P comment dryRun (path # rest) (fs, removedFiles) =
     (case patching_read P of
        None \<Rightarrow> ((fs, removedFiles), Some TypeError)
      | Some read \<Rightarrow>
          deleteFiles_loop P comment dryRun rest
            (case read fs path of
               None \<Rightarrow> (fs, removedFiles)
             | Some contents \<Rightarrow>
                 if str_includes contents comment
                 then (if \<not> dryRun then fs_remove fs path else fs, removedFiles @ [path])
                 else (fs, removedFiles)))"

text \<open>
  The result of a call is what it returns, or what it throws, and the file system it
  leaves.
\<close>

definition deleteFiles :: "markup_patching \<Rightarrow> string list \<Rightarrow> string \<Rightarrow> bool option \<Rightarrow> filesystem
    \<Rightarrow> (thrown + string list) \<times> filesystem" where
  "deleteFiles P filePaths comment dryRun fs =
     (let dry = (case dryRun of None \<Rightarrow> True | Some b \<Rightarrow> b)
      in case deleteFiles_loop P comment dry filePaths (fs, []) of
           ((fs', removedFiles), None) \<Rightarrow> (Inr removedFiles, fs')
         | ((fs', removedFiles), Some e) \<Rightarrow> (Inl e, fs'))"

text \<open>
  \<open>updateFiles\<close> builds one detector for the whole loop, so the detector's
  \<^verbatim>\<open>lastIndex\<close> is part of the loop state beside the file system and the two lists.
  The loop gives \<open>None\<close> when \<open>updateFile\<close> does not return, and else the state it
  reached and the error that ended it, if one did.
\<close>

record update_state =
  us_fs :: filesystem
  us_regex :: RegExp
  updatedFiles :: "string list"
  skippedFiles :: "string list"

fun updateFiles_loop :: "markup_patching \<Rightarrow> string \<Rightarrow> bool \<Rightarrow> bool \<Rightarrow> string list \<Rightarrow> update_state
    \<Rightarrow> (update_state \<times> thrown option) option" where
  "updateFiles_loop P markupPrefix dryRun removeMarkupOnly [] st = Some (st, None)"
| "updateFiles_loop P markupPrefix dryRun removeMarkupOnly (path # rest) st =
     (case patching_read P of
        None \<Rightarrow> Some (st, Some TypeError)
      | Some read \<Rightarrow>
          (case read (us_fs st) path of
             None \<Rightarrow>
               updateFiles_loop P markupPrefix dryRun removeMarkupOnly rest
                 (st\<lparr>skippedFiles := skippedFiles st @ [path]\<rparr>)
           | Some contents \<Rightarrow>
               if contents = [] then
                 updateFiles_loop P markupPrefix dryRun removeMarkupOnly rest
                   (st\<lparr>skippedFiles := skippedFiles st @ [path]\<rparr>)
               else
                 (let (hasMarkup, re) = regexp_test (us_regex st) contents;
                      st1 = st\<lparr>us_regex := re\<rparr>
                  in if \<not> hasMarkup then
                       updateFiles_loop P markupPrefix dryRun removeMarkupOnly rest
                         (st1\<lparr>skippedFiles := skippedFiles st1 @ [path]\<rparr>)
                     else
                       (let st2 = st1\<lparr>updatedFiles := updatedFiles st1 @ [path]\<rparr>
                        in if \<not> dryRun then
                             (case (if removeMarkupOnly
                                    then Some (regexp_delete (us_regex st2) contents)
                                    else map_option (\<lambda>c. (c, us_regex st2))
                                           (updateFile contents markupPrefix)) of
                                None \<Rightarrow> None
                              | Some (updatedContents, re') \<Rightarrow>
                                  (case patching_writeAsync P of
                                     None \<Rightarrow> Some (st2\<lparr>us_regex := re'\<rparr>, Some TypeError)
                                   | Some writeAsync \<Rightarrow>
                                       updateFiles_loop P markupPrefix dryRun removeMarkupOnly rest
                                         (st2\<lparr>us_regex := re',
                                              us_fs := writeAsync (us_fs st2) path
                                                         updatedContents\<rparr>)))
                           else updateFiles_loop P markupPrefix dryRun removeMarkupOnly rest
                                  st2))))"

text \<open>
  \<open>dryRun\<close> is \<^verbatim>\<open>true\<close> and \<open>removeMarkupOnly\<close> is \<^verbatim>\<open>false\<close> when the caller leaves
  them out. The detector is built before the loop; the constructor's error ends the
  call before any file is read.
\<close>

definition updateFiles :: "(string \<Rightarrow> rx option) \<Rightarrow> markup_patching \<Rightarrow> string list \<Rightarrow> string
    \<Rightarrow> bool option \<Rightarrow> bool option \<Rightarrow> filesystem
    \<Rightarrow> ((thrown + string list \<times> string list) \<times> filesystem) option" where
  "updateFiles engine P filePaths markupPrefix dryRun removeMarkupOnly fs =
     (let dry = (case dryRun of None \<Rightarrow> True | Some b \<Rightarrow> b);
          rmo = (case removeMarkupOnly of None \<Rightarrow> False | Some b \<Rightarrow> b)
      in case new_markupRegex engine markupPrefix of
           None \<Rightarrow> Some (Inl SyntaxError, fs)
         | Some searchRegex \<Rightarrow>
             (case updateFiles_loop P markupPrefix dry rmo filePaths
                     \<lparr>us_fs = fs, us_regex = searchRegex,
                      updatedFiles = [], skippedFiles = []\<rparr> of
                None \<Rightarrow> None
              | Some (st, None) \<Rightarrow> Some (Inr (updatedFiles st, skippedFiles st), us_fs st)
              | Some (st, Some e) \<Rightarrow> Some (Inl e, us_fs st)))"

section \<open>Front matter\<close>

text \<open>\<^verbatim>\<open>s.split(sep)\<close> with a separator of several characters (never empty here).\<close>

function split_str :: "string \<Rightarrow> string \<Rightarrow> string list" where
  "split_str sep [] = [[]]"
| "split_str sep (x # xs) =
     (if sep \<noteq> [] \<and> prefix sep (x # xs)
      then [] # split_str sep (drop (length sep) (x # xs))
      else (case split_str sep xs of [] \<Rightarrow> [[x]] | l # ls \<Rightarrow> (x # l) # ls))"
  by pat_completeness auto
termination
  by (relation "measure (\<lambda>(sep, s). length s)") auto

text \<open>
  A patch directive of the front matter: the target path, the three text operations,
  the \<open>skip\<close> flag and the options of the generic patcher. A field the YAML leaves
  out is \<open>None\<close>.
\<close>

record Patch =
  patch_path :: "string option"
  patch_skip :: "bool option"
  patch_append :: "string option"
  patch_prepend :: "string option"
  patch_replace :: "string option"
  patch_insert :: "string option"
  patch_before :: "string option"
  patch_after :: "string option"
  patch_delete :: "string option"
  patch_force :: "bool option"

text \<open>
  The \<open>path\<close> entry of the front matter is a text, or a value of another kind (a
  number, a sequence, a mapping).
\<close>

datatype path_value = PathText string | PathOther

record front_data =
  fm_path :: "path_value option"
  fm_patches :: "Patch list option"
  fm_patch :: "Patch option"

definition no_front_data :: front_data where
  "no_front_data = \<lparr>fm_path = None, fm_patches = None, fm_patch = None\<rparr>"

text \<open>
  What the YAML parser does with a text is a parameter of the model: it throws, it
  gives \<^verbatim>\<open>null\<close>, or it gives a value whose fields are read.
\<close>

datatype yaml = YamlError | YamlNull | YamlObject front_data

text \<open>
  \<open>frontMatter\<close>: with one or three parts the data is the parsed second part, or the
  empty object when there is none, and the content is the third part, or the first;
  with any other number of parts both are \<^verbatim>\<open>undefined\<close>. A parser error leaves the
  function as an exception.
\<close>

definition frontMatter :: "(string \<Rightarrow> yaml) \<Rightarrow> string \<Rightarrow> string
    \<Rightarrow> thrown + (front_data option \<times> string option)" where
  "frontMatter parse NEW_LINE contents =
     (let parts = split_str (''---'' @ NEW_LINE) contents
      in if length parts = 1 \<or> length parts = 3
         then (case (if 1 < length parts \<and> parts ! 1 \<noteq> [] then parse (parts ! 1)
                     else YamlObject no_front_data) of
                 YamlError \<Rightarrow> Inl YamlParseError
               | YamlNull \<Rightarrow>
                   Inr (None, Some (if 2 < length parts then parts ! 2 else parts ! 0))
               | YamlObject d \<Rightarrow>
                   Inr (Some d, Some (if 2 < length parts then parts ! 2 else parts ! 0)))
         else Inr (None, None))"

section \<open>Patches\<close>

text \<open>
  The patching tools of the toolbox are parameters: each takes the state it works on
  (the file system) and gives the new state, or \<open>None\<close> when its promise is rejected.
  The generic patcher receives the directive without \<open>path\<close> and \<open>skip\<close>.
\<close>

record 's patching =
  tool_append :: "string \<Rightarrow> string \<Rightarrow> 's \<Rightarrow> 's option"
  tool_prepend :: "string \<Rightarrow> string \<Rightarrow> 's \<Rightarrow> 's option"
  tool_replace :: "string \<Rightarrow> string \<Rightarrow> string option \<Rightarrow> 's \<Rightarrow> 's option"
  tool_patch :: "string \<Rightarrow> Patch \<Rightarrow> 's \<Rightarrow> 's option"

definition patchOpts :: "Patch \<Rightarrow> Patch" where
  "patchOpts patch = patch\<lparr>patch_path := None, patch_skip := None\<rparr>"

text \<open>A string is truthy when it is there and not empty.\<close>

definition truthy :: "string option \<Rightarrow> bool" where
  "truthy v = (case v of None \<Rightarrow> False | Some s \<Rightarrow> s \<noteq> [])"

text \<open>
  One awaited call: it runs when nothing before it was rejected; a rejection keeps the
  state reached and stops what follows.
\<close>

definition await :: "'s \<times> bool \<Rightarrow> ('s \<Rightarrow> 's option) \<Rightarrow> 's \<times> bool" where
  "await r f =
     (if snd r then (case f (fst r) of None \<Rightarrow> (fst r, False) | Some s' \<Rightarrow> (s', True))
      else r)"

definition handlePatch :: "'s patching \<Rightarrow> Patch \<Rightarrow> 's \<times> bool \<Rightarrow> 's \<times> bool" where
  "handlePatch tools patch r =
     (if truthy (patch_path patch) \<and> patch_skip patch \<noteq> Some True
      then
        (let patchPath = the (patch_path patch);
             opts = patchOpts patch;
             r1 = (if truthy (patch_append opts)
                   then await r (tool_append tools patchPath (the (patch_append opts)))
                   else r);
             r2 = (if truthy (patch_prepend opts)
                   then await r1 (tool_prepend tools patchPath (the (patch_prepend opts)))
                   else r1);
             r3 = (if truthy (patch_replace opts)
                   then await r2 (tool_replace tools patchPath (the (patch_replace opts))
                                    (patch_insert opts))
                   else r2)
         in await r3 (tool_patch tools patchPath opts))
      else r)"

definition all_patches :: "front_data \<Rightarrow> Patch list" where
  "all_patches data =
     (case fm_patches data of None \<Rightarrow> [] | Some ps \<Rightarrow> ps) @
     (case fm_patch data of None \<Rightarrow> [] | Some p \<Rightarrow> [p])"

text \<open>
  \<open>handlePatches\<close> runs the directives in order; the result is the state reached and
  whether every call was fulfilled.
\<close>

definition handlePatches :: "'s patching \<Rightarrow> front_data \<Rightarrow> 's \<Rightarrow> 's \<times> bool" where
  "handlePatches tools data s = fold (handlePatch tools) (all_patches data) (s, True)"

text \<open>
  The calls that reach the patching tools, and a call carried out by given tools.
\<close>

datatype patch_call =
    CallAppend string string
  | CallPrepend string string
  | CallReplace string string "string option"
  | CallPatch string Patch

fun perform :: "'s patching \<Rightarrow> patch_call \<Rightarrow> 's \<Rightarrow> 's option" where
  "perform tools (CallAppend path text) = tool_append tools path text"
| "perform tools (CallPrepend path text) = tool_prepend tools path text"
| "perform tools (CallReplace path old new) = tool_replace tools path old new"
| "perform tools (CallPatch path opts) = tool_patch tools path opts"

text \<open>
  A list of calls, each awaited in turn: the first rejected call ends the run, and no
  call after it is made.
\<close>

definition run_calls :: "'s patching \<Rightarrow> patch_call list \<Rightarrow> 's \<times> bool \<Rightarrow> 's \<times> bool" where
  "run_calls tools calls r = fold (\<lambda>c r. await r (perform tools c)) calls r"

text \<open>
  The calls of one directive as the specification words them: none for a directive
  that is skipped or has no target; otherwise exactly the operations present in the
  directive, in the order append, prepend, replace, generic patch. The generic patch is
  present when one of its options (\<open>insert\<close>, \<open>before\<close>, \<open>after\<close>, \<open>delete\<close>, \<open>force\<close>)
  is, and it receives these options.
\<close>

definition present :: "string option \<Rightarrow> bool" where
  "present v = (v \<noteq> None \<and> v \<noteq> Some [])"

definition generic_options :: "Patch \<Rightarrow> Patch" where
  "generic_options d =
     \<lparr> patch_path = None, patch_skip = None, patch_append = None, patch_prepend = None,
       patch_replace = None, patch_insert = patch_insert d, patch_before = patch_before d,
       patch_after = patch_after d, patch_delete = patch_delete d,
       patch_force = patch_force d \<rparr>"

definition spec_directive_calls :: "Patch \<Rightarrow> patch_call list" where
  "spec_directive_calls d =
     (case patch_path d of
        None \<Rightarrow> []
      | Some target \<Rightarrow>
          if target = [] \<or> patch_skip d = Some True then []
          else
            (case patch_append d of
               None \<Rightarrow> []
             | Some text \<Rightarrow> if text = [] then [] else [CallAppend target text]) @
            (case patch_prepend d of
               None \<Rightarrow> []
             | Some text \<Rightarrow> if text = [] then [] else [CallPrepend target text]) @
            (case patch_replace d of
               None \<Rightarrow> []
             | Some old \<Rightarrow> if old = [] then [] else [CallReplace target old (patch_insert d)]) @
            (if present (patch_insert d) \<or> present (patch_before d) \<or> present (patch_after d)
                \<or> present (patch_delete d) \<or> patch_force d = Some True
             then [CallPatch target (generic_options d)] else []))"

text \<open>
  The calls of one directive as the amended wording has them: the same, but the call
  of the generic patcher is always made, and it receives every field of the directive
  but \<open>path\<close> and \<open>skip\<close>, the three texts among them.
\<close>

definition issued_calls :: "Patch \<Rightarrow> patch_call list" where
  "issued_calls d =
     (case patch_path d of
        None \<Rightarrow> []
      | Some target \<Rightarrow>
          if target = [] \<or> patch_skip d = Some True then []
          else
            (case patch_append d of
               None \<Rightarrow> []
             | Some text \<Rightarrow> if text = [] then [] else [CallAppend target text]) @
            (case patch_prepend d of
               None \<Rightarrow> []
             | Some text \<Rightarrow> if text = [] then [] else [CallPrepend target text]) @
            (case patch_replace d of
               None \<Rightarrow> []
             | Some old \<Rightarrow> if old = [] then [] else [CallReplace target old (patch_insert d)]) @
            [CallPatch target
               \<lparr> patch_path = None, patch_skip = None, patch_append = patch_append d,
                 patch_prepend = patch_prepend d, patch_replace = patch_replace d,
                 patch_insert = patch_insert d, patch_before = patch_before d,
                 patch_after = patch_after d, patch_delete = patch_delete d,
                 patch_force = patch_force d \<rparr>])"

section \<open>Generating from templates\<close>

datatype GeneratorCaseOptions =
  CaseAuto | CasePascal | CaseCamel | CaseKebab | CaseSnake | CaseNone

record GeneratorOptions =
  opt_name :: string
  opt_originalName :: string
  opt_skipIndexFile :: "bool option"
  opt_subdirectory :: string
  opt_overwrite :: bool
  opt_dir :: "string option"
  opt_case :: "GeneratorCaseOptions option"

text \<open>The properties handed to the template engine.\<close>

record template_props =
  camelCaseName :: string
  kebabCaseName :: string
  pascalCaseName :: string
  snakeCaseName :: string
  props_options :: GeneratorOptions

text \<open>What \<^verbatim>\<open>filesystem.exists\<close> answers.\<close>

datatype exists_result = ExistsNot | ExistsDir | ExistsFile | ExistsOther

text \<open>
  What the generator takes from its libraries and from the process is a parameter of
  the model: the four case functions of the string tools, the YAML parser, the
  template engine (\<open>None\<close> when rendering throws), the members \<^verbatim>\<open>find\<close>, \<^verbatim>\<open>read\<close>,
  \<^verbatim>\<open>write\<close> (\<open>None\<close> when it throws), \<^verbatim>\<open>exists\<close>, \<^verbatim>\<open>separator\<close> and \<^verbatim>\<open>eol\<close> of the
  toolbox's \<^verbatim>\<open>filesystem\<close>, the working directory and the patching tools.

  The name \<^verbatim>\<open>path\<close> of the generator is destructured from \<^verbatim>\<open>filesystem\<close>: it is the
  function \<^verbatim>\<open>filesystem.path\<close>, here \<open>lib_path\<close>, which resolves its parts against the
  working directory. \<open>lib_basename\<close>, \<open>lib_dirname\<close> and \<open>lib_join\<close> are the properties
  \<^verbatim>\<open>basename\<close>, \<^verbatim>\<open>dirname\<close> and \<^verbatim>\<open>join\<close> of that function: \<open>None\<close> for a property it
  does not have, whose call throws a \<^verbatim>\<open>TypeError\<close>. The toolbox's function has none of
  the three.
\<close>

record libs =
  lib_pascalCase :: "string \<Rightarrow> string"
  lib_kebabCase :: "string \<Rightarrow> string"
  lib_camelCase :: "string \<Rightarrow> string"
  lib_snakeCase :: "string \<Rightarrow> string"
  lib_yaml :: "string \<Rightarrow> yaml"
  lib_render :: "string \<Rightarrow> template_props \<Rightarrow> string option"
  lib_path :: "string list \<Rightarrow> string"
  lib_basename :: "(string \<Rightarrow> string) option"
  lib_dirname :: "(string \<Rightarrow> string) option"
  lib_join :: "(string list \<Rightarrow> string) option"
  lib_find :: "filesystem \<Rightarrow> string \<Rightarrow> string list"
  lib_read :: "filesystem \<Rightarrow> string \<Rightarrow> string option"
  lib_write :: "filesystem \<Rightarrow> string \<Rightarrow> string \<Rightarrow> filesystem option"
  lib_exists :: "filesystem \<Rightarrow> string \<Rightarrow> exists_result"
  lib_separator :: string
  lib_eol :: string
  lib_cwd :: string
  lib_patching :: "filesystem patching"

definition igniteDir :: "libs \<Rightarrow> string" where
  "igniteDir L = lib_path L [lib_cwd L, ''ignite'']"

definition appDir :: "libs \<Rightarrow> string" where
  "appDir L = lib_path L [lib_cwd L, ''app'']"

definition templatesDir :: "libs \<Rightarrow> string" where
  "templatesDir L = lib_path L [igniteDir L, ''templates'']"

text \<open>\<^verbatim>\<open>isBlank\<close>: no string at all, or nothing but white space.\<close>

definition isBlank :: "string option \<Rightarrow> bool" where
  "isBlank v = (case v of None \<Rightarrow> True | Some s \<Rightarrow> trim s = [])"

text \<open>The case option is applied to the whole file name that \<^verbatim>\<open>basename\<close> gives.\<close>

definition formatFilename :: "libs \<Rightarrow> GeneratorCaseOptions option \<Rightarrow> string \<Rightarrow> string" where
  "formatFilename L caseOpt filename =
     (let caseOption = (case caseOpt of None \<Rightarrow> CaseAuto | Some c \<Rightarrow> c)
      in if caseOption = CasePascal then lib_pascalCase L filename
         else if caseOption = CaseKebab then lib_kebabCase L filename
         else if caseOption = CaseSnake then lib_snakeCase L filename
         else if caseOption = CaseCamel then lib_camelCase L filename
         else filename)"

text \<open>
  The relative path is the \<open>path\<close> entry of the front matter, whatever value it is,
  and without one the path built from the name of the template.
\<close>

definition relativePath_of :: "libs \<Rightarrow> string \<Rightarrow> GeneratorOptions \<Rightarrow> front_data \<Rightarrow> string
    \<Rightarrow> path_value" where
  "relativePath_of L generator options data templateFilename =
     (case fm_path data of
        Some p \<Rightarrow> p
      | None \<Rightarrow>
          PathText
            (lib_path L
               [opt_subdirectory options,
                replace_first ''NAME'' (opt_name options)
                  (replace_first ''.ejs'' []
                     (replace_first
                        (lib_path L [templatesDir L, generator] @ lib_separator L) []
                        templateFilename))]))"

text \<open>
  The target path: \<^verbatim>\<open>path.basename(relativePath)\<close>, the case transform, and
  \<^verbatim>\<open>path.join\<close> of the base directory, \<^verbatim>\<open>path.dirname(relativePath)\<close> and the
  formatted name. The call of a property that is not there throws a \<^verbatim>\<open>TypeError\<close>,
  and so does \<^verbatim>\<open>basename\<close> of a value that is not a string.
\<close>

definition targetPath_of :: "libs \<Rightarrow> GeneratorOptions \<Rightarrow> path_value \<Rightarrow> thrown + string" where
  "targetPath_of L options relativePath =
     (case lib_basename L of
        None \<Rightarrow> Inl TypeError
      | Some basename \<Rightarrow>
          (case relativePath of
             PathOther \<Rightarrow> Inl TypeError
           | PathText rp \<Rightarrow>
               (let formattedFilename = formatFilename L (opt_case options) (basename rp)
                in case lib_dirname L of
                     None \<Rightarrow> Inl TypeError
                   | Some dirname \<Rightarrow>
                       (case lib_join L of
                          None \<Rightarrow> Inl TypeError
                        | Some join \<Rightarrow>
                            Inr (join
                                   [case opt_dir options of
                                      None \<Rightarrow> appDir L
                                    | Some d \<Rightarrow> d,
                                    dirname rp,
                                    formattedFilename])))))"

definition props_of :: "libs \<Rightarrow> GeneratorOptions \<Rightarrow> template_props" where
  "props_of L options =
     \<lparr> camelCaseName = lib_camelCase L (opt_name options),
       kebabCaseName = lib_kebabCase L (opt_name options),
       pascalCaseName = lib_pascalCase L (opt_name options),
       snakeCaseName = lib_snakeCase L (opt_name options),
       props_options = options \<rparr>"

text \<open>
  The state of the loop over the templates: the file system, the three lists of the
  result, and the paths that \<^verbatim>\<open>console.error\<close> reported.
\<close>

record gen_state =
  gen_fs :: filesystem
  written :: "string list"
  overwritten :: "string list"
  exists :: "string list"
  gen_errors :: "string list"

text \<open>
  The part of the loop body inside \<^verbatim>\<open>try\<close>: render, write, record, patch. Whatever is
  thrown there is caught and reported, and the state reached so far stays.
\<close>

definition render_and_write :: "libs \<Rightarrow> GeneratorOptions \<Rightarrow> front_data \<Rightarrow> string \<Rightarrow> string
    \<Rightarrow> bool \<Rightarrow> gen_state \<Rightarrow> gen_state" where
  "render_and_write L options data content targetPath pathExists st =
     (case lib_render L content (props_of L options) of
        None \<Rightarrow> st\<lparr>gen_errors := gen_errors st @ [targetPath]\<rparr>
      | Some generatedContent \<Rightarrow>
          (case lib_write L (gen_fs st) targetPath generatedContent of
             None \<Rightarrow> st\<lparr>gen_errors := gen_errors st @ [targetPath]\<rparr>
           | Some fs' \<Rightarrow>
               (let st1 = (if pathExists
                           then st\<lparr>gen_fs := fs', overwritten := overwritten st @ [targetPath]\<rparr>
                           else st\<lparr>gen_fs := fs', written := written st @ [targetPath]\<rparr>)
                in if fm_patches data \<noteq> None \<or> fm_patch data \<noteq> None
                   then (case handlePatches (lib_patching L) data (gen_fs st1) of
                           (fs'', ok) \<Rightarrow>
                             if ok then st1\<lparr>gen_fs := fs''\<rparr>
                             else st1\<lparr>gen_fs := fs'',
                                      gen_errors := gen_errors st1 @ [targetPath]\<rparr>)
                   else st1)))"

text \<open>
  One round of the loop: the state it leaves and the error that leaves the function,
  if one does. The front matter is read and the target path is computed before the
  \<^verbatim>\<open>try\<close>: a parser error, the read of \<^verbatim>\<open>data.path\<close> when there is no data, and an
  error in the path functions all leave the function.
\<close>

definition generate_one :: "libs \<Rightarrow> string \<Rightarrow> GeneratorOptions \<Rightarrow> string \<Rightarrow> gen_state
    \<Rightarrow> gen_state \<times> thrown option" where
  "generate_one L generator options templateFilename st =
     (let templateContent = lib_read L (gen_fs st) templateFilename
      in if isBlank templateContent then (st, None)
         else
           (case frontMatter (lib_yaml L) (lib_eol L) (the templateContent) of
              Inl e \<Rightarrow> (st, Some e)
            | Inr (None, content) \<Rightarrow> (st, Some TypeError)
            | Inr (Some data, content) \<Rightarrow>
                (case targetPath_of L options
                        (relativePath_of L generator options data templateFilename) of
                   Inl e \<Rightarrow> (st, Some e)
                 | Inr targetPath \<Rightarrow>
                     (let pathExists = (lib_exists L (gen_fs st) targetPath = ExistsFile)
                      in if pathExists \<and> \<not> opt_overwrite options
                         then (st\<lparr>exists := exists st @ [targetPath]\<rparr>, None)
                         else (render_and_write L options data (the content) targetPath
                                 pathExists st, None)))))"

fun generate_loop :: "libs \<Rightarrow> string \<Rightarrow> GeneratorOptions \<Rightarrow> string list \<Rightarrow> gen_state
    \<Rightarrow> gen_state \<times> thrown option" where
  "generate_loop L generator options [] st = (st, None)"
| "generate_loop L generator options (templateFilename # rest) st =
     (case generate_one L generator options templateFilename st of
        (st', None) \<Rightarrow> generate_loop L generator options rest st'
      | (st', Some e) \<Rightarrow> (st', Some e))"

text \<open>
  \<open>generateFromTemplate\<close>: the state the call leaves, and the error it throws if one
  left the loop. Without an error the caller receives the three lists of the state;
  with one the promise is rejected and the caller receives no list.
\<close>

definition generateFromTemplate :: "libs \<Rightarrow> string \<Rightarrow> GeneratorOptions \<Rightarrow> filesystem
    \<Rightarrow> gen_state \<times> thrown option" where
  "generateFromTemplate L generator options fs =
     (let sourceGeneratorDir = lib_path L [templatesDir L, generator];
          templateFiles = lib_find L fs sourceGeneratorDir
      in generate_loop L generator options templateFiles
           \<lparr>gen_fs = fs, written = [], overwritten = [], exists = [], gen_errors = []\<rparr>)"

section \<open>Sample libraries\<close>

text \<open>
  Modelled from the spec: the Name-Case Deriver, that is the case functions of the
  toolbox's string tools, which are not part of the source tree. A name is cut into
  words: a run of lower-case letters with the capital before it, a run of capitals (up
  to the capital that starts a capitalised word), a run of digits; every other
  character separates words and is dropped. The hyphenated and the underscored form
  join the lower-cased words, the lower-camel form capitalises all words but the
  first, and the capitalised-compound form capitalises that. The model covers ASCII
  names.
\<close>

definition is_lower :: "char \<Rightarrow> bool" where
  "is_lower c = (97 \<le> (of_char c :: nat) \<and> (of_char c :: nat) \<le> 122)"

definition is_upper :: "char \<Rightarrow> bool" where
  "is_upper c = (65 \<le> (of_char c :: nat) \<and> (of_char c :: nat) \<le> 90)"

definition is_digit :: "char \<Rightarrow> bool" where
  "is_digit c = (48 \<le> (of_char c :: nat) \<and> (of_char c :: nat) \<le> 57)"

definition to_lower :: "char \<Rightarrow> char" where
  "to_lower c = (if is_upper c then char_of (of_char c + (32::nat)) else c)"

definition to_upper :: "char \<Rightarrow> char" where
  "to_upper c = (if is_lower c then char_of (of_char c - (32::nat)) else c)"

function name_words :: "string \<Rightarrow> string list" where
  "name_words [] = []"
| "name_words (c # cs) =
     (if is_lower c then (c # takeWhile is_lower cs) # name_words (dropWhile is_lower cs)
      else if is_upper c then
        (if cs \<noteq> [] \<and> is_lower (hd cs)
         then (c # takeWhile is_lower cs) # name_words (dropWhile is_lower cs)
         else if takeWhile is_upper cs \<noteq> [] \<and> dropWhile is_upper cs \<noteq> []
                 \<and> is_lower (hd (dropWhile is_upper cs))
         then (c # butlast (takeWhile is_upper cs))
                # name_words (last (takeWhile is_upper cs) # dropWhile is_upper cs)
         else (c # takeWhile is_upper cs) # name_words (dropWhile is_upper cs))
      else if is_digit c then (c # takeWhile is_digit cs) # name_words (dropWhile is_digit cs)
      else name_words cs)"
  by pat_completeness auto
termination
proof (relation "measure length")
  fix c :: char and cs :: string
  assume "takeWhile is_upper cs \<noteq> [] \<and> dropWhile is_upper cs \<noteq> [] \<and> is_lower (hd (dropWhile is_upper cs))"
  then have "length (takeWhile is_upper cs) \<ge> 1" by (cases "takeWhile is_upper cs") auto
  moreover have "length (takeWhile is_upper cs) + length (dropWhile is_upper cs) = length cs"
    by (metis length_append takeWhile_dropWhile_id)
  ultimately show "(last (takeWhile is_upper cs) # dropWhile is_upper cs, c # cs) \<in> measure length"
    by simp
qed (auto simp: less_Suc_eq_le length_dropWhile_le)

definition lower_word :: "string \<Rightarrow> string" where
  "lower_word w = map to_lower w"

definition capitalize :: "string \<Rightarrow> string" where
  "capitalize w = (case lower_word w of [] \<Rightarrow> [] | c # cs \<Rightarrow> to_upper c # cs)"

definition upperFirst :: "string \<Rightarrow> string" where
  "upperFirst w = (case w of [] \<Rightarrow> [] | c # cs \<Rightarrow> to_upper c # cs)"

definition kebabCase :: "string \<Rightarrow> string" where
  "kebabCase s = join_with ''-'' (map lower_word (name_words s))"

definition snakeCase :: "string \<Rightarrow> string" where
  "snakeCase s = join_with ''_'' (map lower_word (name_words s))"

definition camelCase :: "string \<Rightarrow> string" where
  "camelCase s = (case name_words s of [] \<Rightarrow> [] | w # ws \<Rightarrow> lower_word w @ concat (map capitalize ws))"

definition pascalCase :: "string \<Rightarrow> string" where
  "pascalCase s = upperFirst (camelCase s)"

text \<open>
  A sample of the other libraries, for running the generator on concrete inputs. The
  working directory is \<^verbatim>\<open>/proj\<close>. \<open>sample_path\<close> is \<^verbatim>\<open>filesystem.path\<close>: it resolves
  its parts against the working directory, a part that starts with the separator
  replacing what stands before it, and normalises the result. The function has no
  \<^verbatim>\<open>basename\<close>, \<^verbatim>\<open>dirname\<close> or \<^verbatim>\<open>join\<close>.
\<close>

fun normalize_segments :: "string list \<Rightarrow> string list \<Rightarrow> string list" where
  "normalize_segments [] acc = rev acc"
| "normalize_segments (s # ss) acc =
     (if s = [] \<or> s = ''.'' then normalize_segments ss acc
      else if s = ''..'' then normalize_segments ss (drop 1 acc)
      else normalize_segments ss (s # acc))"

definition sample_resolve :: "string \<Rightarrow> string list \<Rightarrow> string" where
  "sample_resolve cwd parts =
     ''/'' @ join_with ''/''
       (normalize_segments
          (split_on CHR ''/''
             (fold (\<lambda>p cur. if p = [] then cur
                              else if hd p = CHR ''/'' then p
                              else cur @ ''/'' @ p) parts cwd))
          [])"

definition sample_path :: "string list \<Rightarrow> string" where
  "sample_path parts = sample_resolve ''/proj'' parts"

text \<open>
  The file-system members resolve the path they are given in the same way. \<^verbatim>\<open>read\<close>
  gives \<^verbatim>\<open>undefined\<close> for a path that is no file, \<^verbatim>\<open>write\<close> throws on a directory.
  \<^verbatim>\<open>find\<close> gives the files below a directory of the working directory whose name ends
  in \<^verbatim>\<open>.ejs\<close>, as paths relative to the working directory, in the order of a walk that
  takes the entries of every directory sorted by name.
\<close>

definition sample_read :: "filesystem \<Rightarrow> string \<Rightarrow> string option" where
  "sample_read fs p = fs_read fs (sample_path [p])"

definition sample_write :: "filesystem \<Rightarrow> string \<Rightarrow> string \<Rightarrow> filesystem option" where
  "sample_write fs p contents =
     (case map_of fs (sample_path [p]) of
        Some Dir \<Rightarrow> None
      | _ \<Rightarrow> Some (fs_write fs (sample_path [p]) contents))"

definition sample_exists :: "filesystem \<Rightarrow> string \<Rightarrow> exists_result" where
  "sample_exists fs p =
     (case map_of fs (sample_path [p]) of
        None \<Rightarrow> ExistsNot
      | Some Dir \<Rightarrow> ExistsDir
      | Some (File c) \<Rightarrow> ExistsFile)"

definition sample_find :: "filesystem \<Rightarrow> string \<Rightarrow> string list" where
  "sample_find fs dir =
     map (drop (length ''/proj/''))
       (sort_key (split_on CHR ''/'')
          (map fst
             (filter (\<lambda>(q, n). n \<noteq> Dir \<and> is_under (sample_path [dir]) q \<and> suffix ''.ejs'' q)
                fs)))"

text \<open>
  A parser for front matter of one \<^verbatim>\<open>path:\<close> entry: it throws on an unclosed flow
  sequence, gives \<^verbatim>\<open>null\<close> for a blank text, a text for a plain value and another
  value for a number or a closed flow sequence. An engine that throws on the
  expression \<^verbatim>\<open>missing\<close> and returns every other text as it is. File patching on the
  model's file system, which rejects when the target is no file.
\<close>

definition sample_yaml :: "string \<Rightarrow> yaml" where
  "sample_yaml s =
     (if trim s = [] then YamlNull
      else if str_includes s ''['' \<and> \<not> str_includes s '']'' then YamlError
      else if prefix ''path: '' s
      then (let v = trim (takeWhile (\<lambda>c. c \<noteq> NL) (drop 6 s))
            in if v = [] then YamlObject no_front_data
               else if list_all is_digit v \<or> hd v = CHR ''[''
               then YamlObject (no_front_data\<lparr>fm_path := Some PathOther\<rparr>)
               else YamlObject (no_front_data\<lparr>fm_path := Some (PathText v)\<rparr>))
      else YamlObject no_front_data)"

definition sample_render :: "string \<Rightarrow> template_props \<Rightarrow> string option" where
  "sample_render content props =
     (if str_includes content ''<%= missing %>'' then None else Some content)"

definition sample_patching :: "filesystem patching" where
  "sample_patching =
     \<lparr> tool_append = (\<lambda>path text fs.
         case sample_read fs path of
           None \<Rightarrow> None
         | Some c \<Rightarrow> Some (fs_write fs (sample_path [path]) (c @ text))),
       tool_prepend = (\<lambda>path text fs.
         case sample_read fs path of
           None \<Rightarrow> None
         | Some c \<Rightarrow> Some (fs_write fs (sample_path [path]) (text @ c))),
       tool_replace = (\<lambda>path old new fs.
         case sample_read fs path of
           None \<Rightarrow> None
         | Some c \<Rightarrow> Some (fs_write fs (sample_path [path])
             (replace_first old (case new of None \<Rightarrow> [] | Some t \<Rightarrow> t) c))),
       tool_patch = (\<lambda>path opts fs.
         case sample_read fs path of None \<Rightarrow> None | Some c \<Rightarrow> Some fs) \<rparr>"

definition sample_libs :: libs where
  "sample_libs =
     \<lparr> lib_pascalCase = pascalCase,
       lib_kebabCase = kebabCase,
       lib_camelCase = camelCase,
       lib_snakeCase = snakeCase,
       lib_yaml = sample_yaml,
       lib_render = sample_render,
       lib_path = sample_path,
       lib_basename = None,
       lib_dirname = None,
       lib_join = None,
       lib_find = sample_find,
       lib_read = sample_read,
       lib_write = sample_write,
       lib_exists = sample_exists,
       lib_separator = ''/'',
       lib_eol = [NL],
       lib_cwd = ''/proj'',
       lib_patching = sample_patching \<rparr>"

definition sample_options :: GeneratorOptions where
  "sample_options =
     \<lparr> opt_name = ''UserProfile'',
       opt_originalName = ''UserProfile'',
       opt_skipIndexFile = None,
       opt_subdirectory = ''models'',
       opt_overwrite = False,
       opt_dir = None,
       opt_case = None \<rparr>"

text \<open>
  The patching tools as a recorder: the state is the list of the calls made so far.
\<close>

definition recorder :: "patch_call list patching" where
  "recorder =
     \<lparr> tool_append = (\<lambda>path text calls. Some (calls @ [CallAppend path text])),
       tool_prepend = (\<lambda>path text calls. Some (calls @ [CallPrepend path text])),
       tool_replace = (\<lambda>path old new calls. Some (calls @ [CallReplace path old new])),
       tool_patch = (\<lambda>path opts calls. Some (calls @ [CallPatch path opts])) \<rparr>"

section \<open>Inputs and notions for the properties\<close>

text \<open>
  The unfolding equations of the two partial functions run them on concrete inputs.
\<close>

declare removeBlocks.simps [code]

declare removeEmptyDirs_loop.simps [code]

text \<open>
  Two files with one marker comment each; the first has a line before the comment.
\<close>

definition two_marked_files :: filesystem where
  "two_marked_files =
     [(''a.tsx'', File (''const a = 1'' @ [NL] @ ''{/* @demo remove-current-line */}'')),
      (''b.tsx'', File ''{/* @demo remove-current-line */}'')]"

text \<open>
  A \<^verbatim>\<open>patching\<close> object that did have the two members, reading and writing the files of
  the model's file system.
\<close>

definition reading_patching :: markup_patching where
  "reading_patching = \<lparr>patching_read = Some fs_read, patching_writeAsync = Some fs_write\<rparr>"



text \<open>A block whose end marker stands before its start marker.\<close>

definition end_before_start :: string where
  "end_before_start = unlines [''// @demo remove-block-end'', ''// @demo remove-block-start'']"

text \<open>
  A directive that only appends, one that only replaces, one with every operation, and
  front matter whose first directive names a file that is not there.
\<close>

definition no_patch :: Patch where
  "no_patch =
     \<lparr> patch_path = None, patch_skip = None, patch_append = None, patch_prepend = None,
       patch_replace = None, patch_insert = None, patch_before = None, patch_after = None,
       patch_delete = None, patch_force = None \<rparr>"

definition append_only :: Patch where
  "append_only = no_patch\<lparr>patch_path := Some ''app/index.ts'', patch_append := Some ''A''\<rparr>"

definition replace_only :: Patch where
  "replace_only = no_patch\<lparr>patch_path := Some ''app/index.ts'', patch_replace := Some ''old''\<rparr>"

definition sample_patch :: Patch where
  "sample_patch =
     \<lparr> patch_path = Some ''app/index.ts'', patch_skip = None,
       patch_append = Some ''A'', patch_prepend = Some ''P'', patch_replace = Some ''old'',
       patch_insert = Some ''new'', patch_before = None, patch_after = None,
       patch_delete = None, patch_force = None \<rparr>"

definition sample_front_data :: front_data where
  "sample_front_data =
     \<lparr> fm_path = None,
       fm_patches = Some [sample_patch\<lparr>patch_skip := Some True\<rparr>,
                          sample_patch\<lparr>patch_prepend := None\<rparr>],
       fm_patch = Some sample_patch \<rparr>"

definition missing_then_present :: front_data where
  "missing_then_present =
     \<lparr> fm_path = None,
       fm_patches = Some [append_only\<lparr>patch_path := Some ''app/missing.ts''\<rparr>, append_only],
       fm_patch = None \<rparr>"

text \<open>Sample template directories, and the state in which the generator enters its loop.\<close>

definition bad_then_good :: filesystem where
  "bad_then_good =
     [(''/proj/ignite/templates/model/Broken.ts.ejs'',
         File (''---'' @ [NL] @ ''path: ['' @ [NL] @ ''---'' @ [NL] @ ''body'')),
      (''/proj/ignite/templates/model/NAME.ts.ejs'', File ''export const x = 1'')]"

definition two_templates :: filesystem where
  "two_templates =
     [(''/proj/ignite/templates/model/NAMEStore.ts.ejs'', File ''export const store = 1''),
      (''/proj/ignite/templates/model/NAME.ts.ejs'', File ''export const x = 1'')]"

definition one_template :: filesystem where
  "one_template =
     [(''/proj/ignite/templates/model/NAME.ts.ejs'', File ''export const x = 1'')]"

definition start_state :: "filesystem \<Rightarrow> gen_state" where
  "start_state fs = \<lparr>gen_fs = fs, written = [], overwritten = [], exists = [], gen_errors = []\<rparr>"

section \<open>Properties of the bulk passes\<close>

subsection \<open>Dry run by default\<close>

text \<open>
  Whatever members the \<^verbatim>\<open>patching\<close> object has, a dry run leaves the file system as
  it found it, and \<open>updateFiles\<close> comes to an end.
\<close>

lemma updateFiles_loop_dry:
  "\<exists>st' e. updateFiles_loop P markupPrefix True rmo filePaths st = Some (st', e)
     \<and> us_fs st' = us_fs st"
proof (induction filePaths arbitrary: st)
  case Nil
  show ?case by simp
next
  case (Cons path rest)
  show ?case
  proof (cases "patching_read P")
    case None
    then show ?thesis by simp
  next
    case rd: (Some read)
    show ?thesis
    proof (cases "read (us_fs st) path")
      case None
      with rd Cons [of "st\<lparr>skippedFiles := skippedFiles st @ [path]\<rparr>"] show ?thesis by simp
    next
      case (Some contents)
      show ?thesis
      proof (cases "contents = []")
        case True
        with rd Some Cons [of "st\<lparr>skippedFiles := skippedFiles st @ [path]\<rparr>"]
        show ?thesis by simp
      next
        case False
        obtain hasMarkup re where t: "regexp_test (us_regex st) contents = (hasMarkup, re)"
          by (cases "regexp_test (us_regex st) contents")
        show ?thesis
        proof (cases hasMarkup)
          case True
          with rd Some False t
            Cons [of "st\<lparr>us_regex := re, updatedFiles := updatedFiles st @ [path]\<rparr>"]
          show ?thesis by simp
        next
          case nm: False
          with rd Some False t
            Cons [of "st\<lparr>us_regex := re, skippedFiles := skippedFiles st @ [path]\<rparr>"]
          show ?thesis by simp
        qed
      qed
    qed
  qed
qed

lemma deleteFiles_loop_dry:
  "fst (fst (deleteFiles_loop P comment True filePaths (fs, removed))) = fs"
  by (induction filePaths arbitrary: removed) (auto split: option.splits)

lemma default_dryRun_leaves_files:
  "snd (deleteFiles P filePaths comment None fs) = fs
   \<and> (\<exists>r. updateFiles engine P filePaths markupPrefix None removeMarkupOnly fs = Some (r, fs))"
proof
  show "snd (deleteFiles P filePaths comment None fs) = fs"
    using deleteFiles_loop_dry [of P comment filePaths fs "[]"]
    by (auto simp: deleteFiles_def split: prod.splits option.splits)
next
  show "\<exists>r. updateFiles engine P filePaths markupPrefix None removeMarkupOnly fs = Some (r, fs)"
  proof (cases "new_markupRegex engine markupPrefix")
    case None
    then show ?thesis by (simp add: updateFiles_def)
  next
    case (Some searchRegex)
    obtain st' e where
      "updateFiles_loop P markupPrefix True
         (case removeMarkupOnly of None \<Rightarrow> False | Some b \<Rightarrow> b) filePaths
         \<lparr>us_fs = fs, us_regex = searchRegex, updatedFiles = [], skippedFiles = []\<rparr>
       = Some (st', e)" and "us_fs st' = fs"
      using updateFiles_loop_dry by fastforce
    with Some show ?thesis by (cases e) (simp_all add: updateFiles_def)
  qed
qed

text \<open>
  Claim C10. With \<open>dryRun\<close> left out, a call should write and delete nothing and
  return the report of what would change. Both functions begin their loop with
  \<^verbatim>\<open>patching.read\<close>, a member the toolbox's \<^verbatim>\<open>patching\<close> object does not have: on every
  list that is not empty the call throws before any file is looked at, and the caller
  receives no report. What is thrown is a \<^verbatim>\<open>TypeError\<close> at the first path; only where
  the constructor of the detector rejects the prefix, \<open>updateFiles\<close> throws its
  \<^verbatim>\<open>SyntaxError\<close> before that, and for the prefix \<^verbatim>\<open>@demo\<close> it does not. Only the
  empty list gives a report, the empty one. The file system is left as it was.
\<close>

theorem default_dryRun_returns_no_report:
  "deleteFiles gluegun_patching (path # rest) comment None fs = (Inl TypeError, fs)
   \<and> updateFiles engine gluegun_patching (path # rest) markupPrefix None removeMarkupOnly fs
       = Some (Inl (if new_markupRegex engine markupPrefix = None then SyntaxError
                    else TypeError), fs)
   \<and> updateFiles engine gluegun_patching (path # rest) ''@demo'' None removeMarkupOnly fs
       = Some (Inl TypeError, fs)
   \<and> deleteFiles gluegun_patching [] comment None fs = (Inr [], fs)
   \<and> updateFiles engine gluegun_patching [] ''@demo'' None removeMarkupOnly fs
       = Some (Inr ([], []), fs)"
proof -
  have plain: "new_markupRegex engine ''@demo'' = Some (markupRegex ''@demo'')"
    by (simp add: new_markupRegex_def plain_prefix_def)
  have "updateFiles engine gluegun_patching (path # rest) markupPrefix None removeMarkupOnly fs
       = Some (Inl (if new_markupRegex engine markupPrefix = None then SyntaxError
                    else TypeError), fs)"
    by (cases "new_markupRegex engine markupPrefix")
      (simp_all add: updateFiles_def gluegun_patching_def)
  with plain show ?thesis
    by (simp add: deleteFiles_def updateFiles_def gluegun_patching_def)
qed

subsection \<open>What the detector matches\<close>

text \<open>Whenever the constructor returns, the detector has both flags and starts at 0.\<close>

lemma new_markupRegex_flags:
  assumes "new_markupRegex engine pfx = Some re"
  shows "rx_global re \<and> rx_multiline re \<and> lastIndex re = 0"
  using assms
  by (auto simp: new_markupRegex_def markupRegex_def split: if_splits option.splits)

text \<open>
  Claim C5. The detector is built with the global and the multi-line flag, and it
  should match a line \<^verbatim>\<open>// <prefix> <kind>\<close> or \<^verbatim>\<open># <prefix> <kind>\<close> with white space
  between the comment token and the prefix. The pattern the source builds holds
  \<^verbatim>\<open>s*\<close> where its comment promises \<^verbatim>\<open>\s*\<close>: for the prefix \<^verbatim>\<open>@demo\<close> the flags are
  set, but neither the line \<^verbatim>\<open>// @demo remove-current-line\<close> nor the line
  \<^verbatim>\<open># @demo remove-file\<close> is matched, while the same comments written without the
  space are.
\<close>

theorem markupRegex_misses_spaced_comment:
  "markupPattern ''@demo'' = ''(//|#)s*@demo.*|{?/.*@demo.*/}?''
   \<and> rx_global (markupRegex ''@demo'') \<and> rx_multiline (markupRegex ''@demo'')
   \<and> \<not> fst (regexp_test (markupRegex ''@demo'') ''// @demo remove-current-line'')
   \<and> \<not> fst (regexp_test (markupRegex ''@demo'') ''# @demo remove-file'')
   \<and> fst (regexp_test (markupRegex ''@demo'') ''//@demo remove-current-line'')
   \<and> fst (regexp_test (markupRegex ''@demo'') ''#@demo remove-file'')"
  by code_simp

subsection \<open>Classification of files\<close>

text \<open>
  When the loop comes to its end without an error, every path of the list is in one
  of the two lists.
\<close>

lemma updateFiles_loop_one_list:
  "updateFiles_loop P markupPrefix dryRun rmo filePaths st = Some (st', None) \<Longrightarrow>
   length (updatedFiles st') + length (skippedFiles st')
     = length (updatedFiles st) + length (skippedFiles st) + length filePaths
   \<and> set (updatedFiles st') \<union> set (skippedFiles st')
     = set (updatedFiles st) \<union> set (skippedFiles st) \<union> set filePaths"
proof (induction filePaths arbitrary: st)
  case Nil
  then show ?case by simp
next
  case (Cons path rest)
  from Cons.prems obtain read where rd: "patching_read P = Some read"
    by (cases "patching_read P") simp_all
  show ?case
  proof (cases "read (us_fs st) path")
    case None
    with rd Cons.prems have "updateFiles_loop P markupPrefix dryRun rmo rest
        (st\<lparr>skippedFiles := skippedFiles st @ [path]\<rparr>) = Some (st', None)" by simp
    from Cons.IH [OF this] show ?thesis by auto
  next
    case (Some contents)
    show ?thesis
    proof (cases "contents = []")
      case True
      with rd Some Cons.prems have "updateFiles_loop P markupPrefix dryRun rmo rest
          (st\<lparr>skippedFiles := skippedFiles st @ [path]\<rparr>) = Some (st', None)" by simp
      from Cons.IH [OF this] show ?thesis by auto
    next
      case False
      obtain hasMarkup re where t: "regexp_test (us_regex st) contents = (hasMarkup, re)"
        by (cases "regexp_test (us_regex st) contents")
      show ?thesis
      proof (cases hasMarkup)
        case nm: False
        with rd Some False t Cons.prems have "updateFiles_loop P markupPrefix dryRun rmo rest
          (st\<lparr>us_regex := re, skippedFiles := skippedFiles st @ [path]\<rparr>) = Some (st', None)"
          by simp
        from Cons.IH [OF this] show ?thesis by auto
      next
        case True
        with rd Some False t Cons.prems obtain st1 where
          "updateFiles_loop P markupPrefix dryRun rmo rest st1 = Some (st', None)"
          and "updatedFiles st1 = updatedFiles st @ [path]"
          and "skippedFiles st1 = skippedFiles st"
          by (auto simp: Let_def split: if_splits option.splits prod.splits)
        with Cons.IH [of st1] show ?thesis by auto
      qed
    qed
  qed
qed

text \<open>
  Had the \<^verbatim>\<open>patching\<close> object the two members, the classification of a file would
  still depend on the files before it: the detector is one object with the global flag,
  and \<^verbatim>\<open>test\<close> resumes at the index where the previous match ended. In
  \<open>two_marked_files\<close> the file \<^verbatim>\<open>b.tsx\<close> is one marker comment; alone it would be
  reported as updated, and after \<^verbatim>\<open>a.tsx\<close>, whose match ends at index 45, as skipped.
\<close>

lemma updateFiles_with_read_depends_on_order:
  "fst (regexp_test (markupRegex ''@demo'') ''{/* @demo remove-current-line */}'')
   \<and> map_option fst (updateFiles engine reading_patching [''b.tsx''] ''@demo'' None None
        two_marked_files)
       = Some (Inr ([''b.tsx''], []))
   \<and> map_option fst (updateFiles engine reading_patching [''a.tsx'', ''b.tsx''] ''@demo''
        None None two_marked_files)
       = Some (Inr ([''a.tsx''], [''b.tsx'']))"
  by code_simp

text \<open>
  Claim C1. Every file of the list should end in exactly one of the two lists, by its
  own content. The loop of \<open>updateFiles\<close> begins with \<^verbatim>\<open>patching.read\<close>, a member the
  toolbox's \<^verbatim>\<open>patching\<close> object does not have: for every list that is not empty, every
  prefix, every choice of the two options and every file system the call throws, a
  \<^verbatim>\<open>TypeError\<close> at the first path unless the constructor of the detector rejected the
  prefix before; no file is classified and no file is changed. For the two marked
  files of \<open>two_marked_files\<close> and the prefix \<^verbatim>\<open>@demo\<close> the caller receives a
  \<^verbatim>\<open>TypeError\<close> and neither list.
\<close>

theorem updateFiles_classifies_no_file:
  "updateFiles engine gluegun_patching (path # rest) markupPrefix dryRun removeMarkupOnly fs
     = Some (Inl (if new_markupRegex engine markupPrefix = None then SyntaxError
                  else TypeError), fs)
   \<and> updateFiles engine gluegun_patching [''a.tsx'', ''b.tsx''] ''@demo'' dryRun
        removeMarkupOnly two_marked_files
       = Some (Inl TypeError, two_marked_files)"
proof -
  have plain: "new_markupRegex engine ''@demo'' = Some (markupRegex ''@demo'')"
    by (simp add: new_markupRegex_def plain_prefix_def)
  have "updateFiles engine gluegun_patching (path # rest) markupPrefix dryRun removeMarkupOnly fs
     = Some (Inl (if new_markupRegex engine markupPrefix = None then SyntaxError
                  else TypeError), fs)"
    by (cases "new_markupRegex engine markupPrefix")
      (simp_all add: updateFiles_def gluegun_patching_def)
  with plain show ?thesis
    by (simp add: updateFiles_def gluegun_patching_def)
qed

subsection \<open>Termination of the empty-directory loop\<close>

lemma remove_round_dry_fs: "fst (remove_round True paths st) = fst st"
  by (induction paths arbitrary: st) (auto simp: split_paired_all)

lemma removeEmptyDirs_loop_dry_None_aux:
  assumes "removeEmptyDirs_loop matching targetDir dryRun st emptyDirPaths = Some y"
  shows "\<not> (dryRun \<and> emptyDirPaths \<noteq> [] \<and>
            emptyDirPaths = getEmptyDirPaths matching targetDir (fst st))"
proof (rule removeEmptyDirs_loop.raw_induct
    [where P = "\<lambda>m t d s e y. \<not> (d \<and> e \<noteq> [] \<and> e = getEmptyDirPaths m t (fst s))",
     OF _ assms])
  fix loop :: "(string \<Rightarrow> bool) \<Rightarrow> string \<Rightarrow> bool \<Rightarrow> filesystem \<times> string list \<Rightarrow> string list
     \<Rightarrow> (string list \<times> filesystem) option"
  fix m t d s e r
  assume IH: "\<And>m t d s e r. loop m t d s e = Some r \<Longrightarrow>
      \<not> (d \<and> e \<noteq> [] \<and> e = getEmptyDirPaths m t (fst s))"
  assume step: "(if 0 < length e
      then let st' = remove_round d e s in loop m t d st' (getEmptyDirPaths m t (fst st'))
      else Some (snd s, fst s)) = Some r"
  show "\<not> (d \<and> e \<noteq> [] \<and> e = getEmptyDirPaths m t (fst s))"
  proof
    assume a: "d \<and> e \<noteq> [] \<and> e = getEmptyDirPaths m t (fst s)"
    let ?st' = "remove_round d e s"
    from a have d by blast
    then have fs: "fst ?st' = fst s" by (simp add: remove_round_dry_fs)
    from a have "e \<noteq> []" by blast
    then have "0 < length e" by simp
    with step have "(let st' = remove_round d e s
        in loop m t d st' (getEmptyDirPaths m t (fst st'))) = Some r"
      by (simp only: if_True)
    then have "loop m t d ?st' (getEmptyDirPaths m t (fst ?st')) = Some r"
      by (simp only: Let_def)
    from IH [OF this] a fs show False by metis
  qed
qed

lemma removeEmptyDirs_dry_None:
  assumes "getEmptyDirPaths matching targetDir fs \<noteq> []"
  shows "removeEmptyDirs matching targetDir True fs = None"
proof (cases "removeEmptyDirs matching targetDir True fs")
  case None
  then show ?thesis .
next
  case (Some y)
  then have "removeEmptyDirs_loop matching targetDir True (fs, [])
      (getEmptyDirPaths matching targetDir fs) = Some y"
    by (simp add: removeEmptyDirs_def)
  from removeEmptyDirs_loop_dry_None_aux [OF this] assms show ?thesis by simp
qed

lemma fs_remove_length: "length (fs_remove fs path) \<le> length fs"
  by (simp add: fs_remove_def)

lemma fs_remove_length_less:
  assumes "path \<in> fst ` set fs"
  shows "length (fs_remove fs path) < length fs"
proof -
  from assms obtain n where "(path, n) \<in> set fs" by auto
  then show ?thesis
    unfolding fs_remove_def by (rule length_filter_less) simp
qed

lemma remove_round_length:
  "length (fst (remove_round False paths (fs, removed))) \<le> length fs"
proof (induction paths arbitrary: fs removed)
  case Nil
  show ?case by simp
next
  case (Cons p ps)
  have "length (fst (remove_round False ps (fs_remove fs p, removed @ [p])))
      \<le> length (fs_remove fs p)"
    by (rule Cons.IH)
  also have "\<dots> \<le> length fs" by (rule fs_remove_length)
  finally show ?case by simp
qed

lemma remove_round_length_less:
  assumes "paths \<noteq> []" and "hd paths \<in> fst ` set fs"
  shows "length (fst (remove_round False paths (fs, removed))) < length fs"
proof (cases paths)
  case Nil
  with assms show ?thesis by simp
next
  case (Cons p ps)
  have "length (fst (remove_round False ps (fs_remove fs p, removed @ [p])))
      \<le> length (fs_remove fs p)"
    by (rule remove_round_length)
  also have "\<dots> < length fs"
    using assms Cons by (simp add: fs_remove_length_less)
  finally show ?thesis using Cons by simp
qed

lemma getEmptyDirPaths_keys:
  "set (getEmptyDirPaths matching targetDir fs) \<subseteq> fst ` set fs"
proof
  fix p
  assume "p \<in> set (getEmptyDirPaths matching targetDir fs)"
  then obtain q n where q: "(q, n) \<in> set fs" "is_under targetDir q"
    and p: "p = path_join targetDir (drop (length targetDir + 1) q)"
    by (auto simp: getEmptyDirPaths_def fs_find_dirs_def)
  from q(2) obtain r where "q = (targetDir @ ''/'') @ r"
    by (auto simp: is_under_def prefix_def)
  then have "p = q" using p by (simp add: path_join_def)
  with q(1) show "p \<in> fst ` set fs" by force
qed

lemma removeEmptyDirs_loop_returns:
  "set emptyDirPaths \<subseteq> fst ` set (fst st) \<Longrightarrow>
   \<exists>y. removeEmptyDirs_loop matching targetDir False st emptyDirPaths = Some y"
proof (induction "length (fst st)" arbitrary: st emptyDirPaths rule: less_induct)
  case less
  show ?case
  proof (cases "emptyDirPaths = []")
    case True
    then show ?thesis by (subst removeEmptyDirs_loop.simps) simp
  next
    case False
    let ?st' = "remove_round False emptyDirPaths st"
    have "hd emptyDirPaths \<in> fst ` set (fst st)"
      using False less.prems by (cases emptyDirPaths) auto
    then have "length (fst ?st') < length (fst st)"
      using remove_round_length_less [OF False, of "fst st" "snd st"] by simp
    from less.hyps [OF this, of "getEmptyDirPaths matching targetDir (fst ?st')"]
    obtain y where "removeEmptyDirs_loop matching targetDir False ?st'
        (getEmptyDirPaths matching targetDir (fst ?st')) = Some y"
      using getEmptyDirPaths_keys by blast
    with False show ?thesis
      by (subst removeEmptyDirs_loop.simps) (simp add: Let_def)
  qed
qed

lemma removeEmptyDirs_returns:
  "\<exists>y. removeEmptyDirs matching targetDir False fs = Some y"
  unfolding removeEmptyDirs_def
  by (rule removeEmptyDirs_loop_returns) (simp add: getEmptyDirPaths_keys)

text \<open>A parent that is empty only after its child is gone is removed in the same call.\<close>

lemma removeEmptyDirs_leaf_then_parent:
  "removeEmptyDirs (\<lambda>p. True) ''/t'' False
     [(''/t/a'', Dir), (''/t/a/b'', Dir), (''/t/c'', Dir), (''/t/c/f'', File ''x'')]
   = Some ([''/t/a/b'', ''/t/a''], [(''/t/c'', Dir), (''/t/c/f'', File ''x'')])"
  by code_simp

text \<open>
  Claim C2. \<open>removeEmptyDirs\<close> should return on every finite tree, with and without
  \<open>dryRun\<close>. When it removes, every round makes the file system smaller and the call
  returns (\<open>removeEmptyDirs_returns\<close>). Under \<open>dryRun\<close> nothing is removed, so a scan that
  finds an empty directory finds it again in every later round: on a tree with the one
  empty directory \<^verbatim>\<open>/t/a\<close> the call never returns.
\<close>

theorem removeEmptyDirs_dry_run_never_returns:
  "removeEmptyDirs (\<lambda>p. True) ''/t'' True [(''/t/a'', Dir)] = None"
proof (rule removeEmptyDirs_dry_None)
  show "getEmptyDirPaths (\<lambda>p. True) ''/t'' [(''/t/a'', Dir)] \<noteq> []"
    by code_simp
qed

subsection \<open>Lines, and what each pass leaves\<close>








lemma str_includes_Nil: "str_includes [] m \<longleftrightarrow> m = []"
  by simp

















text \<open>
  \<open>removeBlocks\<close> need not return: when the first end marker stands before the first
  start marker, \<^verbatim>\<open>splice\<close> is called with a count of 0, the text is unchanged, and the
  function calls itself on the same text again.
\<close>

lemma end_before_start_step:
  "(let lines = lines_of end_before_start;
        blockStartIndex = findIndex (\<lambda>line. str_includes line (markupComment ''@demo'' RemoveBlockStart)) lines;
        blockEndIndex = findIndex (\<lambda>line. str_includes line (markupComment ''@demo'' RemoveBlockEnd)) lines;
        blockExists = (blockStartIndex \<noteq> -1 \<and> blockEndIndex \<noteq> -1);
        lines' = (if blockExists
                  then splice (nat blockStartIndex) (blockEndIndex - blockStartIndex + 1) lines
                  else lines);
        updateContents = unlines lines';
        anotherBlockExists =
          (findIndex (\<lambda>line. str_includes line (markupComment ''@demo'' RemoveBlockStart)) lines' \<noteq> -1 \<and>
           findIndex (\<lambda>line. str_includes line (markupComment ''@demo'' RemoveBlockEnd)) lines' \<noteq> -1)
    in (anotherBlockExists, updateContents)) = (True, end_before_start)"
  by code_simp

lemma removeBlocks_end_before_start_aux:
  assumes "removeBlocks contents start endc = Some r"
  shows "\<not> (contents = end_before_start \<and> start = markupComment ''@demo'' RemoveBlockStart
            \<and> endc = markupComment ''@demo'' RemoveBlockEnd)"
proof (rule removeBlocks.raw_induct
    [where P = "\<lambda>c s e r. \<not> (c = end_before_start \<and> s = markupComment ''@demo'' RemoveBlockStart
            \<and> e = markupComment ''@demo'' RemoveBlockEnd)", OF _ assms])
  fix rb :: "string \<Rightarrow> string \<Rightarrow> string \<Rightarrow> string option"
  fix c s e r
  assume IH: "\<And>c s e r. rb c s e = Some r \<Longrightarrow>
     \<not> (c = end_before_start \<and> s = markupComment ''@demo'' RemoveBlockStart
            \<and> e = markupComment ''@demo'' RemoveBlockEnd)"
  assume step: "(let lines = lines_of c;
          blockStartIndex = findIndex (\<lambda>line. str_includes line s) lines;
          blockEndIndex = findIndex (\<lambda>line. str_includes line e) lines;
          blockExists = (blockStartIndex \<noteq> -1 \<and> blockEndIndex \<noteq> -1);
          lines' = (if blockExists
                    then splice (nat blockStartIndex) (blockEndIndex - blockStartIndex + 1) lines
                    else lines);
          updateContents = unlines lines';
          anotherBlockExists =
            (findIndex (\<lambda>line. str_includes line s) lines' \<noteq> -1 \<and>
             findIndex (\<lambda>line. str_includes line e) lines' \<noteq> -1)
      in if anotherBlockExists then rb updateContents s e
         else Some updateContents) = Some r"
  show "\<not> (c = end_before_start \<and> s = markupComment ''@demo'' RemoveBlockStart
            \<and> e = markupComment ''@demo'' RemoveBlockEnd)"
  proof
    assume a: "c = end_before_start \<and> s = markupComment ''@demo'' RemoveBlockStart
            \<and> e = markupComment ''@demo'' RemoveBlockEnd"
    from end_before_start_step have
      "rb end_before_start (markupComment ''@demo'' RemoveBlockStart)
          (markupComment ''@demo'' RemoveBlockEnd) = Some r"
      using step a unfolding Let_def by (simp only: prod.inject if_True)
    from IH [OF this] show False by simp
  qed
qed

lemma removeBlocks_end_before_start_never_returns:
  "removeBlocks end_before_start (markupComment ''@demo'' RemoveBlockStart)
     (markupComment ''@demo'' RemoveBlockEnd) = None"
  using removeBlocks_end_before_start_aux
  by (cases "removeBlocks end_before_start (markupComment ''@demo'' RemoveBlockStart)
     (markupComment ''@demo'' RemoveBlockEnd)") auto

subsection \<open>Replacing the next line\<close>

text \<open>
  Claim C8. On the two lines of a marker line with the text \<^verbatim>\<open>REPLACED\<close> and a line
  \<^verbatim>\<open>old\<close> the result should be the single line \<^verbatim>\<open>REPLACED\<close>, for a \<^verbatim>\<open>//\<close> and for
  a \<^verbatim>\<open>#\<close> comment. The source removes the first \<^verbatim>\<open>//\<close> and the marker only: the
  \<^verbatim>\<open>//\<close> comment and the bare marker give \<^verbatim>\<open>REPLACED\<close>, the \<^verbatim>\<open>#\<close> comment gives
  \<^verbatim>\<open>#  REPLACED\<close>.
\<close>

theorem replaceNextLine_keeps_hash:
  "replaceNextLine (unlines [''// @demo replace-next-line REPLACED'', ''old''])
       (markupComment ''@demo'' ReplaceNextLine) = ''REPLACED''
   \<and> replaceNextLine (unlines [''@demo replace-next-line REPLACED'', ''old''])
       (markupComment ''@demo'' ReplaceNextLine) = ''REPLACED''
   \<and> replaceNextLine (unlines [''# @demo replace-next-line REPLACED'', ''old''])
       (markupComment ''@demo'' ReplaceNextLine) = ''#  REPLACED''"
  by code_simp

section \<open>Properties of generation\<close>

subsection \<open>Order of the patch operations\<close>

lemma run_calls_Nil: "run_calls tools [] r = r"
  by (simp add: run_calls_def)

lemma run_calls_Cons:
  "run_calls tools (c # calls) r = run_calls tools calls (await r (perform tools c))"
  by (simp add: run_calls_def)

lemma run_calls_append:
  "run_calls tools (xs @ ys) r = run_calls tools ys (run_calls tools xs r)"
  by (simp add: run_calls_def)

lemma run_calls_rejected: "run_calls tools calls (s, False) = (s, False)"
  by (induction calls) (simp_all add: run_calls_Nil run_calls_Cons await_def)

lemma handlePatch_issued_calls:
  "handlePatch tools d r = run_calls tools (issued_calls d) r"
proof (cases "patch_path d")
  case None
  then show ?thesis
    by (simp add: handlePatch_def issued_calls_def truthy_def run_calls_Nil)
next
  case (Some target)
  have opts: "patchOpts d =
      \<lparr> patch_path = None, patch_skip = None, patch_append = patch_append d,
        patch_prepend = patch_prepend d, patch_replace = patch_replace d,
        patch_insert = patch_insert d, patch_before = patch_before d,
        patch_after = patch_after d, patch_delete = patch_delete d,
        patch_force = patch_force d \<rparr>"
    by (cases d) (simp add: patchOpts_def)
  show ?thesis
  proof (cases "target = [] \<or> patch_skip d = Some True")
    case True
    with Some show ?thesis
      by (auto simp: handlePatch_def issued_calls_def truthy_def run_calls_Nil)
  next
    case False
    with Some show ?thesis
      unfolding handlePatch_def issued_calls_def Let_def opts
      by (auto simp: truthy_def run_calls_Nil run_calls_Cons run_calls_append
          split: option.splits)
  qed
qed

lemma fold_handlePatch_issued_calls:
  "fold (handlePatch tools) ps r = run_calls tools (concat (map issued_calls ps)) r"
  by (induction ps arbitrary: r)
    (simp_all add: run_calls_Nil run_calls_append handlePatch_issued_calls)

text \<open>
  A directive that is skipped, or that has no target, makes no call: it leaves the
  state as it is, whatever the tools are.
\<close>

lemma handlePatch_skip:
  "patch_skip d = Some True \<or> patch_path d = None \<or> patch_path d = Some []
   \<Longrightarrow> handlePatch tools d r = r"
  by (auto simp: handlePatch_def truthy_def)

text \<open>
  Claim C9, as the code has it. For every front matter, every behaviour of the
  patching tools and every state, \<open>handlePatches\<close> is the run of the calls issued by
  its directives, taken in order, the directives of \<open>patches\<close> first and \<open>patch\<close>
  last: for a directive with a target that is not skipped the append, the prepend and
  the replace that are set and not empty, in this order, and then always the generic
  patcher with every field of the directive but \<open>path\<close> and \<open>skip\<close>; for any other
  directive no call. Every call is awaited: the call whose promise is rejected ends
  \<open>handlePatches\<close> with the state reached, and no later call is made.
\<close>

theorem handlePatches_runs_issued_calls:
  "handlePatches tools data s
     = run_calls tools (concat (map issued_calls (all_patches data))) (s, True)
   \<and> run_calls tools [] (s, True) = (s, True)
   \<and> run_calls tools (c # calls) (s, True)
       = (case perform tools c s of
            None \<Rightarrow> (s, False)
          | Some s' \<Rightarrow> run_calls tools calls (s', True))"
  by (simp add: handlePatches_def fold_handlePatch_issued_calls run_calls_Nil run_calls_Cons
      await_def run_calls_rejected split: option.splits)

text \<open>
  With the sample tools: when the target of the first directive is not there, its
  append is rejected and the append of the second directive, whose target is there, is
  not made; when every target is there, all calls are made in their order.
\<close>

theorem handlePatches_runs_issued_calls_witness:
  "handlePatches sample_patching missing_then_present [(''/proj/app/index.ts'', File ''x'')]
     = ([(''/proj/app/index.ts'', File ''x'')], False)
   \<and> handlePatches sample_patching sample_front_data [(''/proj/app/index.ts'', File ''old'')]
     = ([(''/proj/app/index.ts'', File ''PnewAA'')], True)"
proof -
  have a: "run_calls sample_patching (concat (map issued_calls (all_patches missing_then_present)))
       ([(''/proj/app/index.ts'', File ''x'')], True)
     = ([(''/proj/app/index.ts'', File ''x'')], False)"
    by code_simp
  have b: "run_calls sample_patching (concat (map issued_calls (all_patches sample_front_data)))
       ([(''/proj/app/index.ts'', File ''old'')], True)
     = ([(''/proj/app/index.ts'', File ''PnewAA'')], True)"
    by code_simp
  from handlePatches_runs_issued_calls
    [of sample_patching missing_then_present "[(''/proj/app/index.ts'', File ''x'')]"]
  have "handlePatches sample_patching missing_then_present [(''/proj/app/index.ts'', File ''x'')]
     = run_calls sample_patching (concat (map issued_calls (all_patches missing_then_present)))
       ([(''/proj/app/index.ts'', File ''x'')], True)" by (rule conjunct1)
  with a have 1: "handlePatches sample_patching missing_then_present
      [(''/proj/app/index.ts'', File ''x'')] = ([(''/proj/app/index.ts'', File ''x'')], False)"
    by (simp only:)
  from handlePatches_runs_issued_calls
    [of sample_patching sample_front_data "[(''/proj/app/index.ts'', File ''old'')]"]
  have "handlePatches sample_patching sample_front_data [(''/proj/app/index.ts'', File ''old'')]
     = run_calls sample_patching (concat (map issued_calls (all_patches sample_front_data)))
       ([(''/proj/app/index.ts'', File ''old'')], True)" by (rule conjunct1)
  with b have 2: "handlePatches sample_patching sample_front_data
      [(''/proj/app/index.ts'', File ''old'')] = ([(''/proj/app/index.ts'', File ''PnewAA'')], True)"
    by (simp only:)
  from 1 2 show ?thesis by (rule conjI)
qed

text \<open>
  Claim C9 as stated fails. A directive that holds nothing but a target and an
  append text, or a target and a replace text, should bring about that one operation.
  The code calls the generic patcher as well, on every directive it does not skip, and
  hands it the append or replace text again among the options. And a directive is not
  always applied: after the rejected call of a directive whose target is not there, no
  operation of the following directive is carried out.
\<close>

theorem generic_patcher_is_always_called:
  "handlePatches recorder \<lparr>fm_path = None, fm_patches = None, fm_patch = Some append_only\<rparr> []
     = ([CallAppend ''app/index.ts'' ''A'',
         CallPatch ''app/index.ts'' (no_patch\<lparr>patch_append := Some ''A''\<rparr>)], True)
   \<and> spec_directive_calls append_only = [CallAppend ''app/index.ts'' ''A'']
   \<and> handlePatches recorder \<lparr>fm_path = None, fm_patches = Some [replace_only], fm_patch = None\<rparr> []
     = ([CallReplace ''app/index.ts'' ''old'' None,
         CallPatch ''app/index.ts'' (no_patch\<lparr>patch_replace := Some ''old''\<rparr>)], True)
   \<and> spec_directive_calls replace_only = [CallReplace ''app/index.ts'' ''old'' None]
   \<and> handlePatches sample_patching missing_then_present [(''/proj/app/index.ts'', File ''x'')]
     = ([(''/proj/app/index.ts'', File ''x'')], False)"
  by code_simp

subsection \<open>The path functions\<close>

text \<open>
  The generator calls \<^verbatim>\<open>path.basename\<close> before its \<^verbatim>\<open>try\<close>. Whenever the path
  function has no such property, a round of the loop leaves the state as it is, and it
  ends without an error only for a blank template; so the loop leaves the state as it
  is, and it ends without an error only when every template is blank.
\<close>

lemma generate_one_without_basename:
  assumes "lib_basename L = None"
  shows "fst (generate_one L generator options t st) = st
    \<and> (snd (generate_one L generator options t st) = None
         \<longleftrightarrow> isBlank (lib_read L (gen_fs st) t))"
  using assms
  by (auto simp: generate_one_def targetPath_of_def Let_def
      split: sum.splits option.splits prod.splits)

lemma generate_loop_without_basename:
  assumes "lib_basename L = None"
  shows "fst (generate_loop L generator options ts st) = st
    \<and> (snd (generate_loop L generator options ts st) = None
         \<longleftrightarrow> list_all (\<lambda>t. isBlank (lib_read L (gen_fs st) t)) ts)"
proof (induction ts)
  case Nil
  show ?case by simp
next
  case (Cons t rest)
  obtain st' e where g: "generate_one L generator options t st = (st', e)"
    by (cases "generate_one L generator options t st")
  from generate_one_without_basename [OF assms, of generator options t st] g
  have st': "st' = st" and e: "e = None \<longleftrightarrow> isBlank (lib_read L (gen_fs st) t)"
    by simp_all
  show ?case
  proof (cases e)
    case None
    with g st' e Cons show ?thesis by simp
  next
    case (Some err)
    with g st' e show ?thesis by simp
  qed
qed

text \<open>
  What the sample search finds in the sample directories: paths relative to the
  working directory, sorted by name.
\<close>

lemma find_bad_then_good:
  "lib_find sample_libs bad_then_good (lib_path sample_libs [templatesDir sample_libs, ''model''])
     = [''ignite/templates/model/Broken.ts.ejs'', ''ignite/templates/model/NAME.ts.ejs'']"
  by code_simp

lemma find_one_template:
  "lib_find sample_libs one_template (lib_path sample_libs [templatesDir sample_libs, ''model''])
     = [''ignite/templates/model/NAME.ts.ejs'']"
  by code_simp

lemma find_two_templates:
  "lib_find sample_libs two_templates (lib_path sample_libs [templatesDir sample_libs, ''model''])
     = [''ignite/templates/model/NAME.ts.ejs'', ''ignite/templates/model/NAMEStore.ts.ejs'']"
  by code_simp

subsection \<open>Errors of one template\<close>

text \<open>
  Claim C3. An error in one template should be caught and reported, and the
  remaining templates should still be processed. The \<^verbatim>\<open>try\<close> of the generator begins
  after the front matter is read and the target path is computed. For a template that
  is not blank, when the YAML parser throws, or when the path function has no
  \<^verbatim>\<open>basename\<close>, as the toolbox's has none: the error leaves the function, the
  parser's own if it threw and a \<^verbatim>\<open>TypeError\<close> otherwise; the state is the one before
  the template, so nothing was reported; and the templates that follow are not
  processed.
\<close>

theorem error_before_try_ends_run:
  assumes "lib_read L (gen_fs st) t = Some c" and "\<not> isBlank (Some c)"
    and "lib_basename L = None \<or> (\<exists>e. frontMatter (lib_yaml L) (lib_eol L) c = Inl e)"
  shows "generate_loop L generator options (t # rest) st
    = (st, Some (case frontMatter (lib_yaml L) (lib_eol L) c of
                   Inl e \<Rightarrow> e
                 | Inr r \<Rightarrow> TypeError))"
proof (cases "frontMatter (lib_yaml L) (lib_eol L) c")
  case (Inl e)
  with assms(1,2) show ?thesis by (simp add: generate_one_def)
next
  case (Inr r)
  with assms(3) have b: "lib_basename L = None" by auto
  obtain d content where r: "r = (d, content)" by (cases r)
  show ?thesis
  proof (cases d)
    case None
    with Inr r assms(1,2) show ?thesis by (simp add: generate_one_def)
  next
    case (Some data)
    with Inr r assms(1,2) b show ?thesis
      by (simp add: generate_one_def targetPath_of_def)
  qed
qed

text \<open>
  With the sample libraries: a template with malformed front matter followed by a
  plain template throws the parser's error, and two plain templates throw a
  \<^verbatim>\<open>TypeError\<close> at the first; in both runs nothing is reported and nothing is
  written.
\<close>

theorem error_before_try_ends_run_witness:
  "generateFromTemplate sample_libs ''model'' sample_options bad_then_good
     = (start_state bad_then_good, Some YamlParseError)
   \<and> generateFromTemplate sample_libs ''model'' sample_options two_templates
     = (start_state two_templates, Some TypeError)"
proof -
  let ?t = "''ignite/templates/model/Broken.ts.ejs''"
  let ?c = "''---'' @ [NL] @ ''path: ['' @ [NL] @ ''---'' @ [NL] @ ''body''"
  let ?t2 = "''ignite/templates/model/NAME.ts.ejs''"
  let ?c2 = "''export const x = 1''"
  have nob: "lib_basename sample_libs = None" by (simp add: sample_libs_def)
  have r: "lib_read sample_libs (gen_fs (start_state bad_then_good)) ?t = Some ?c"
    by code_simp
  have nb: "\<not> isBlank (Some ?c)" by code_simp
  have fm: "frontMatter (lib_yaml sample_libs) (lib_eol sample_libs) ?c = Inl YamlParseError"
    by code_simp
  from nob have h: "lib_basename sample_libs = None
      \<or> (\<exists>e. frontMatter (lib_yaml sample_libs) (lib_eol sample_libs) ?c = Inl e)" by (rule disjI1)
  from error_before_try_ends_run [OF r nb h, of "''model''" sample_options
      "[''ignite/templates/model/NAME.ts.ejs'']"]
  have "generate_loop sample_libs ''model'' sample_options
      [?t, ''ignite/templates/model/NAME.ts.ejs''] (start_state bad_then_good)
      = (start_state bad_then_good, Some YamlParseError)"
    by (simp only: fm sum.case)
  then have 1: "generateFromTemplate sample_libs ''model'' sample_options bad_then_good
     = (start_state bad_then_good, Some YamlParseError)"
    unfolding generateFromTemplate_def Let_def find_bad_then_good start_state_def .
  have r2: "lib_read sample_libs (gen_fs (start_state two_templates)) ?t2 = Some ?c2"
    by code_simp
  have nb2: "\<not> isBlank (Some ?c2)" by code_simp
  have fm2: "frontMatter (lib_yaml sample_libs) (lib_eol sample_libs) ?c2
      = Inr (Some no_front_data, Some ?c2)"
    by code_simp
  from nob have h2: "lib_basename sample_libs = None
      \<or> (\<exists>e. frontMatter (lib_yaml sample_libs) (lib_eol sample_libs) ?c2 = Inl e)"
    by (rule disjI1)
  from error_before_try_ends_run [OF r2 nb2 h2, of "''model''" sample_options
      "[''ignite/templates/model/NAMEStore.ts.ejs'']"]
  have "generate_loop sample_libs ''model'' sample_options
      [?t2, ''ignite/templates/model/NAMEStore.ts.ejs''] (start_state two_templates)
      = (start_state two_templates, Some TypeError)"
    by (simp only: fm2 sum.case)
  then have 2: "generateFromTemplate sample_libs ''model'' sample_options two_templates
     = (start_state two_templates, Some TypeError)"
    unfolding generateFromTemplate_def Let_def find_two_templates start_state_def .
  from 1 2 show ?thesis by (rule conjI)
qed

subsection \<open>The case option\<close>

text \<open>
  The case functions receive the whole file name: were \<^verbatim>\<open>basename\<close> there, the
  extension would be taken for a word of the name.
\<close>

lemma formatFilename_takes_whole_name:
  "formatFilename sample_libs (Some CaseKebab) ''UserProfile.ts'' = ''user-profile-ts''
   \<and> formatFilename sample_libs (Some CasePascal) ''user-profile.ts'' = ''UserProfileTs''"
  by code_simp

text \<open>
  Claim C6. The case option should turn the file name \<^verbatim>\<open>UserProfile.ts\<close> into
  \<^verbatim>\<open>user-profile.ts\<close>, and \<^verbatim>\<open>user-profile.ts\<close> into \<^verbatim>\<open>UserProfile.ts\<close>, and leave the
  directories alone. The file name is taken with \<^verbatim>\<open>path.basename\<close>, a property the
  toolbox's path function does not have: for every case option and every relative
  path the target path is not computed, a \<^verbatim>\<open>TypeError\<close> is thrown instead. With the
  sample libraries and the template \<^verbatim>\<open>NAME.ts.ejs\<close>, the call with the option
  \<^verbatim>\<open>kebab\<close> and the name \<^verbatim>\<open>UserProfile\<close>, and the call with the option \<^verbatim>\<open>pascal\<close>
  and the name \<^verbatim>\<open>user-profile\<close>, throw a \<^verbatim>\<open>TypeError\<close> and write no file.
\<close>

theorem case_option_is_never_applied:
  "targetPath_of (L\<lparr>lib_basename := None\<rparr>) options relativePath = Inl TypeError
   \<and> generateFromTemplate sample_libs ''model''
        (sample_options\<lparr>opt_case := Some CaseKebab\<rparr>) one_template
       = (start_state one_template, Some TypeError)
   \<and> generateFromTemplate sample_libs ''model''
        (sample_options\<lparr>opt_name := ''user-profile'', opt_case := Some CasePascal\<rparr>)
        one_template
       = (start_state one_template, Some TypeError)"
proof (intro conjI)
  show "targetPath_of (L\<lparr>lib_basename := None\<rparr>) options relativePath = Inl TypeError"
    by (simp add: targetPath_of_def)
  show "generateFromTemplate sample_libs ''model''
        (sample_options\<lparr>opt_case := Some CaseKebab\<rparr>) one_template
       = (start_state one_template, Some TypeError)"
    by code_simp
  show "generateFromTemplate sample_libs ''model''
        (sample_options\<lparr>opt_name := ''user-profile'', opt_case := Some CasePascal\<rparr>)
        one_template
       = (start_state one_template, Some TypeError)"
    by code_simp
qed

subsection \<open>Running the generator twice\<close>

text \<open>
  Claim C7. The first of two runs should report every destination as written, the
  second every destination as existing. When the path function has no \<^verbatim>\<open>basename\<close>,
  as the toolbox's has none, a run leaves the file system and the three lists as they
  were at its start, and it returns only when every template it finds is blank;
  otherwise it throws and the caller receives no list. With the sample libraries and
  the template \<^verbatim>\<open>NAME.ts.ejs\<close> the first run throws a \<^verbatim>\<open>TypeError\<close> with nothing
  written, and so does the second run on the file system the first one left.
\<close>

theorem generate_twice_throws_twice:
  "fst (generateFromTemplate (L\<lparr>lib_basename := None\<rparr>) generator options fs) = start_state fs
   \<and> (snd (generateFromTemplate (L\<lparr>lib_basename := None\<rparr>) generator options fs) = None)
       = list_all (\<lambda>t. isBlank (lib_read L fs t))
           (lib_find L fs (lib_path L [templatesDir L, generator]))
   \<and> generateFromTemplate sample_libs ''model'' sample_options one_template
       = (start_state one_template, Some TypeError)
   \<and> generateFromTemplate sample_libs ''model'' sample_options
        (gen_fs (fst (generateFromTemplate sample_libs ''model'' sample_options one_template)))
       = (start_state one_template, Some TypeError)"
proof -
  let ?L = "L\<lparr>lib_basename := None\<rparr>"
  have b: "lib_basename ?L = None" by simp
  have d: "templatesDir ?L = templatesDir L"
    by (simp add: templatesDir_def igniteDir_def)
  have run1: "generateFromTemplate sample_libs ''model'' sample_options one_template
       = (start_state one_template, Some TypeError)"
    by code_simp
  have fs1: "gen_fs (start_state one_template) = one_template"
    by (simp add: start_state_def)
  from generate_loop_without_basename [OF b, of generator options
      "lib_find L fs (lib_path L [templatesDir L, generator])" "start_state fs"]
  have "fst (generateFromTemplate ?L generator options fs) = start_state fs
   \<and> (snd (generateFromTemplate ?L generator options fs) = None)
       = list_all (\<lambda>t. isBlank (lib_read L fs t))
           (lib_find L fs (lib_path L [templatesDir L, generator]))"
    by (simp add: generateFromTemplate_def d start_state_def)
  with run1 show ?thesis by (simp add: fs1)
qed

end
